theory Spec2Isabelle
  imports Main "HOL-Library.AList"
begin

section \<open>JavaScript strings\<close>

text \<open>
  A JavaScript string is modelled as a \<open>string\<close>, one \<open>char\<close> per code unit: the model
  covers the strings whose code units are below 256, the characters of Latin-1.
\<close>

definition lowerLetters :: string where
  "lowerLetters = ''abcdefghijklmnopqrstuvwxyz''"

definition upperLetters :: string where
  "upperLetters = ''ABCDEFGHIJKLMNOPQRSTUVWXYZ''"

definition digits :: string where
  "digits = ''0123456789''"

text \<open>
  The small and the capital letters of Latin-1 beyond ASCII, in the same order: \<open>0xE0\<close> to
  \<open>0xFE\<close> without the division sign, and \<open>0xC0\<close> to \<open>0xDE\<close> without the
  multiplication sign.
\<close>

definition latin1Lower :: string where
  "latin1Lower =
     [CHR 0xE0, CHR 0xE1, CHR 0xE2, CHR 0xE3, CHR 0xE4, CHR 0xE5, CHR 0xE6, CHR
      0xE7, CHR 0xE8, CHR 0xE9, CHR 0xEA, CHR 0xEB, CHR 0xEC, CHR 0xED, CHR 0xEE,
      CHR 0xEF, CHR 0xF0, CHR 0xF1, CHR 0xF2, CHR 0xF3, CHR 0xF4, CHR 0xF5, CHR
      0xF6, CHR 0xF8, CHR 0xF9, CHR 0xFA, CHR 0xFB, CHR 0xFC, CHR 0xFD, CHR 0xFE]"

definition latin1Upper :: string where
  "latin1Upper =
     [CHR 0xC0, CHR 0xC1, CHR 0xC2, CHR 0xC3, CHR 0xC4, CHR 0xC5, CHR 0xC6, CHR
      0xC7, CHR 0xC8, CHR 0xC9, CHR 0xCA, CHR 0xCB, CHR 0xCC, CHR 0xCD, CHR 0xCE,
      CHR 0xCF, CHR 0xD0, CHR 0xD1, CHR 0xD2, CHR 0xD3, CHR 0xD4, CHR 0xD5, CHR
      0xD6, CHR 0xD8, CHR 0xD9, CHR 0xDA, CHR 0xDB, CHR 0xDC, CHR 0xDD, CHR 0xDE]"

text \<open>
  \<open>toLowerCase\<close> maps the capital letters, ASCII and Latin-1, to their small letters and
  leaves every other character of the model as it is.
\<close>

definition toLowerCaseChar :: "char \<Rightarrow> char" where
  "toLowerCaseChar c =
     (case map_of (zip (upperLetters @ latin1Upper) (lowerLetters @ latin1Lower)) c of
        Some l \<Rightarrow> l
      | None \<Rightarrow> c)"

definition toLowerCase :: "string \<Rightarrow> string" where
  "toLowerCase s = map toLowerCaseChar s"

text \<open>
  \<open>toUpperCase\<close> maps the small letters to their capitals. Three characters of the model
  leave it: the sharp s (\<open>0xDF\<close>) becomes the two letters \<open>SS\<close>, and the capitals of the
  micro sign (\<open>0xB5\<close>) and of the y with diaeresis (\<open>0xFF\<close>) are U+039C and U+0178, beyond
  8 bits. The result for a string with one of the last two is \<open>None\<close>: it is no string of
  the model, and so equal to none of them.
\<close>

definition toUpperCaseChar :: "char \<Rightarrow> string option" where
  "toUpperCaseChar c =
     (if c = CHR 0xDF then Some ''SS''
      else if c = CHR 0xB5 \<or> c = CHR 0xFF then None
      else case map_of (zip (lowerLetters @ latin1Lower) (upperLetters @ latin1Upper)) c of
             Some u \<Rightarrow> Some [u]
           | None \<Rightarrow> Some [c])"

fun toUpperCase :: "string \<Rightarrow> string option" where
  "toUpperCase [] = Some []"
| "toUpperCase (c # cs) =
     (case toUpperCaseChar c of
        None \<Rightarrow> None
      | Some u \<Rightarrow> (case toUpperCase cs of None \<Rightarrow> None | Some us \<Rightarrow> Some (u @ us)))"

text \<open>\<open>s.indexOf(sub) > -1\<close> on strings: \<open>sub\<close> occurs in \<open>s\<close>.\<close>

fun hasSubstring :: "string \<Rightarrow> string \<Rightarrow> bool" where
  "hasSubstring [] sub = (sub = [])"
| "hasSubstring (c # cs) sub = (take (length sub) (c # cs) = sub \<or> hasSubstring cs sub)"

text \<open>\<open>s.substr(start, len)\<close>; a length that is not positive gives the empty string.\<close>

definition substr :: "string \<Rightarrow> nat \<Rightarrow> int \<Rightarrow> string" where
  "substr s start len = (if len \<le> 0 then [] else take (nat len) (drop start s))"

text \<open>
  The white space that \<open>parseFloat\<close> trims and that \<open>\s\<close> matches (tab, line feed,
  vertical tab, form feed, carriage return, space, no-break space), as far as 8-bit characters go.
\<close>

definition isWhiteSpace :: "char \<Rightarrow> bool" where
  "isWhiteSpace c = (c \<in> set [CHR 0x09, CHR 0x0A, CHR 0x0B, CHR 0x0C, CHR 0x0D, CHR 0x20, CHR 0xA0])"

text \<open>
  \<open>isNaN(parseFloat(s))\<close>. \<open>parseFloat\<close> trims leading white space and converts the longest
  prefix that is a decimal literal; the result is \<open>NaN\<close> exactly when no prefix is one, that is,
  when what follows the optional sign starts neither with \<open>Infinity\<close>, nor with a digit, nor
  with a dot and a digit. No floating-point value is needed to decide this.
\<close>

definition startsDecimalLiteral :: "string \<Rightarrow> bool" where
  "startsDecimalLiteral s =
     (take 8 s = ''Infinity'' \<or>
      (case s of
         [] \<Rightarrow> False
       | c # r \<Rightarrow> c \<in> set digits \<or>
                  (c = CHR ''.'' \<and> (case r of [] \<Rightarrow> False | d # _ \<Rightarrow> d \<in> set digits))))"

definition parseFloat_isNaN :: "string \<Rightarrow> bool" where
  "parseFloat_isNaN s =
     (let t = dropWhile isWhiteSpace s;
          u = (case t of
                 [] \<Rightarrow> []
               | c # r \<Rightarrow> if c = CHR ''+'' \<or> c = CHR ''-'' then r else t)
      in \<not> startsDecimalLiteral u)"

section \<open>Strings.js\<close>

text \<open>
  \<open>_wordSeparators\<close>. The source string also holds the character U+220E, which has no 8-bit
  code and is left out; \<open>CHR 0xAE\<close> is the registered sign.
\<close>

definition wordSeparators :: string where
  "wordSeparators =
     [CHR ''!'', CHR 0x22, CHR ''#'', CHR ''$'', CHR ''%'', CHR ''&'', CHR ''('', CHR '')'',
      CHR ''*'', CHR ''+'', CHR '','', CHR ''-'', CHR ''.'', CHR ''/'', CHR '':'', CHR '';'',
      CHR ''<'', CHR ''='', CHR ''>'', CHR ''?'', CHR ''@'', CHR ''['', CHR 0x5C, CHR '']'',
      CHR ''^'', CHR ''_'', CHR ''`'', CHR ''{'', CHR ''|'', CHR ''}'', CHR ''~'', CHR '' '',
      CHR 0xAE]"

text \<open>
  \<open>isString\<close> and \<open>isWordSeparator\<close> are applied to \<open>stream.peek()\<close>, which is one
  character or \<open>undefined\<close> (here \<open>None\<close>) at the end of the line. For a character,
  \<open>contains(_wordSeparators, char)\<close> is \<open>_wordSeparators.toLowerCase().indexOf(char) !== -1\<close>;
  for \<open>undefined\<close> it is false.
\<close>

definition isString :: "char option \<Rightarrow> bool" where
  "isString data = (data \<noteq> None)"

definition isWordSeparator :: "char option \<Rightarrow> bool" where
  "isWordSeparator data =
     (case data of None \<Rightarrow> False | Some c \<Rightarrow> hasSubstring (toLowerCase wordSeparators) [c])"

text \<open>
  \<open>startsWith\<close> and \<open>endsWith\<close> delegate to the host's string utilities:
  \<open>str.slice(0, prefix.length) === prefix\<close> and
  \<open>str.indexOf(suffix, str.length - suffix.length) !== -1\<close>.
\<close>

definition startsWith :: "string \<Rightarrow> string \<Rightarrow> bool" where
  "startsWith str prefix = (take (length prefix) str = prefix)"

definition endsWith :: "string \<Rightarrow> string \<Rightarrow> bool" where
  "endsWith str suffix = (drop (length str - length suffix) str = suffix)"

text \<open>
  \<open>trimChar\<close> removes the run of the character at the start and the run at the end (the
  regular expressions \<open>^c+\<close> and \<open>c+$\<close>). The source puts the character into the regular
  expression as it is, so the definition is that of the source for the characters that mean
  themselves there, among them the single and the double quote, which are the only ones that
  the callers pass; for a character with a meaning of its own, such as the dot or a bracket,
  the source does something else.
\<close>

definition trimChar :: "string \<Rightarrow> char \<Rightarrow> string" where
  "trimChar s c = rev (dropWhile (\<lambda>x. x = c) (rev (dropWhile (\<lambda>x. x = c) s)))"

text \<open>
  \<open>toCamelCase\<close> replaces every match of \<open>/(?:^\w|[A-Z]|\b\w|\s+)/g\<close>. A match is one
  character (a word character at index 0 or after a non-word character, or an upper-case
  letter) or a run of white space. A match whose numeric value is 0 (the digit 0, or white
  space) is deleted; the match at index 0 is lower-cased, any other is upper-cased. The
  function below walks the string with the previous character and the index. A match that
  is upper-cased is an ASCII character, whose upper case is always a string of the model.
\<close>

definition isWordChar :: "char \<Rightarrow> bool" where
  "isWordChar c = (c \<in> set lowerLetters \<or> c \<in> set upperLetters \<or> c \<in> set digits \<or> c = CHR ''_'')"

fun toCamelCaseFrom :: "char option \<Rightarrow> nat \<Rightarrow> string \<Rightarrow> string" where
  "toCamelCaseFrom prev i [] = []"
| "toCamelCaseFrom prev i (c # cs) =
     (if c \<in> set upperLetters \<or>
         (isWordChar c \<and> (case prev of None \<Rightarrow> True | Some p \<Rightarrow> \<not> isWordChar p))
      then (if c = CHR ''0'' then []
            else if i = 0 then [toLowerCaseChar c]
            else (case toUpperCaseChar c of Some u \<Rightarrow> u | None \<Rightarrow> [c]))
           @ toCamelCaseFrom (Some c) (Suc i) cs
      else if isWhiteSpace c then toCamelCaseFrom (Some c) (Suc i) cs
      else c # toCamelCaseFrom (Some c) (Suc i) cs)"

definition toCamelCase :: "string \<Rightarrow> string" where
  "toCamelCase s = toCamelCaseFrom None 0 s"

text \<open>\<open>occurrences(string, subString, false)\<close>: the non-overlapping occurrences, left to right.\<close>

fun occurrencesFrom :: "nat \<Rightarrow> string \<Rightarrow> string \<Rightarrow> nat" where
  "occurrencesFrom skip [] sub = 0"
| "occurrencesFrom skip (c # cs) sub =
     (if skip = 0 \<and> take (length sub) (c # cs) = sub
      then Suc (occurrencesFrom (length sub - 1) cs sub)
      else occurrencesFrom (skip - 1) cs sub)"

definition occurrences :: "string \<Rightarrow> string \<Rightarrow> nat" where
  "occurrences s sub = (if length sub \<le> 0 then length s + 1 else occurrencesFrom 0 s sub)"

definition isCamelCase :: "string \<Rightarrow> bool" where
  "isCamelCase s =
     (let tempString =
            concat (map (\<lambda>element. if toUpperCaseChar element = Some [element]
                                     then [CHR '' '', toLowerCaseChar element]
                                     else [element]) s);
          numberOfSpaces = occurrences tempString '' ''
      in if numberOfSpaces = 0 then False
         else if toCamelCase tempString = s then True
         else False)"

text \<open>
  \<open>string.split(/(?=[A-Z])/)\<close> cuts before every upper-case letter that is not the first
  character; the empty string gives one empty part.
\<close>

fun splitBefore :: "string \<Rightarrow> string \<Rightarrow> string list" where
  "splitBefore cur [] = [cur]"
| "splitBefore cur (c # cs) =
     (if c \<in> set upperLetters \<and> cur \<noteq> [] then cur # splitBefore [c] cs
      else splitBefore (cur @ [c]) cs)"

definition splitByUpperCase :: "string \<Rightarrow> string list" where
  "splitByUpperCase s = splitBefore [] s"

section \<open>Module state\<close>

text \<open>
  The lexicon (a Typo instance) is an opaque collaborator: the core only calls its
  \<open>check\<close> and \<open>suggest\<close> methods.
\<close>

record typo =
  typo_check :: "string \<Rightarrow> bool"
  typo_suggest :: "string \<Rightarrow> string list"

text \<open>
  An entry of \<open>_dictionaries\<close>. The flags \<open>dictionaryLoaded\<close> and \<open>affixLoaded\<close> take
  the values \<open>false\<close>, \<open>true\<close> and \<open>null\<close> in the source: \<open>Some False\<close>, \<open>Some True\<close>
  and \<open>None\<close>. The field \<open>localeOf\<close> is the source's \<open>locale\<close>.
\<close>

record dictionary =
  initialized :: bool
  dictionaryLoaded :: "bool option"
  affixLoaded :: "bool option"
  affixData :: "string option"
  dictionaryData :: "string option"
  typo :: "typo option"
  localeOf :: string

record profileItem =
  name :: string
  type :: string

record profileData =
  profile :: string
  items :: "profileItem list"

text \<open>A parsed utility (ignore-rule) file; an absent property is \<open>None\<close>.\<close>

record ignoreList =
  ignore :: "string list"
  ignoreAfter :: "string option"
  ignoreMode :: "string list option"
  ignoreWhenDocumentContains :: "string list option"
  mustBeManuallyLoaded :: "bool option"

datatype event =
    DictionaryLoaded string
  | DictionaryUnloaded string
  | DictionariesUnloaded
  | DictionaryFailedToLoad string

text \<open>
  What the DictionaryManager does to the outside, in order: the events it triggers, the Typo
  instances it constructs and the file reads it starts.
\<close>

datatype effect =
    Trigger event
  | NewTypo string
  | ReadFile string

datatype error = TypeError

text \<open>
  The module-level variables of DictionaryManager, ProfileManager, UtilityManager and
  SpellChecker, with the facts about the host that the code asks for: the application
  support directory, whether \<open>FileSystem.getFileForPath\<close> gives a file for a path, and the
  property names of an empty Array.
  \<open>_dictionaries\<close> is an association list in insertion order; \<open>_dictionariesBeingLoaded\<close>
  is the list of its keys.
\<close>

record world =
  defaultLocale :: string
  dictionaries :: "(string \<times> dictionary) list"
  dictionariesBeingLoaded :: "string list"
  effects :: "effect list"
  applicationSupportDirectory :: string
  fileForPath :: "string \<Rightarrow> bool"
  availableProfiles :: "string \<rightharpoonup> profileData"
  pm_initialized :: bool
  emptyArrayProperties :: "string list"
  alwaysIgnoreFiles :: "ignoreList list"
  alwaysIgnoreCachedList :: "string list"
  ignoreOnlyWithCondition :: "ignoreList list"
  currentModeName :: "string option"
  currentDocumentContents :: "string option"
  sc_initialized :: bool
  spellingIgnoreUppercase :: bool

text \<open>
  The property names for which an empty Array has a value: its own \<open>length\<close> and what it
  inherits from \<open>Array.prototype\<close> and \<open>Object.prototype\<close>. These are the names of the
  language standard that the code was written for; a host may know more, and the field
  \<open>emptyArrayProperties\<close> of a world may hold any list.
\<close>

definition arrayPropertyNames :: "string list" where
  "arrayPropertyNames =
     [''length'', ''constructor'', ''toString'', ''toLocaleString'', ''concat'', ''join'',
      ''pop'', ''push'', ''reverse'', ''shift'', ''slice'', ''sort'', ''splice'', ''unshift'',
      ''indexOf'', ''lastIndexOf'', ''every'', ''some'', ''forEach'', ''map'', ''filter'',
      ''reduce'', ''reduceRight'', ''valueOf'', ''hasOwnProperty'', ''isPrototypeOf'',
      ''propertyIsEnumerable'']"

text \<open>The state in which the modules are loaded.\<close>

definition initialWorld :: "string \<Rightarrow> (string \<Rightarrow> bool) \<Rightarrow> world" where
  "initialWorld dir files =
     \<lparr> defaultLocale = ''en_US'',
       dictionaries = [],
       dictionariesBeingLoaded = [],
       effects = [],
       applicationSupportDirectory = dir,
       fileForPath = files,
       availableProfiles = Map.empty,
       pm_initialized = False,
       emptyArrayProperties = arrayPropertyNames,
       alwaysIgnoreFiles = [],
       alwaysIgnoreCachedList = [''alice''],
       ignoreOnlyWithCondition = [],
       currentModeName = Some ''Mode.all'',
       currentDocumentContents = None,
       sc_initialized = False,
       spellingIgnoreUppercase = True \<rparr>"

section \<open>UtilityManager\<close>

definition containsCondition :: "ignoreList \<Rightarrow> bool" where
  "containsCondition data =
     ((case ignoreAfter data of None \<Rightarrow> False | Some a \<Rightarrow> length a > 0) \<or>
      (case ignoreMode data of None \<Rightarrow> False | Some m \<Rightarrow> length m > 0) \<or>
      (case ignoreWhenDocumentContains data of None \<Rightarrow> False | Some d \<Rightarrow> length d > 0))"

text \<open>
  \<open>_loadUtilityFile(err, data, stats)\<close>, with \<open>data\<close> already parsed. For a file without
  condition the source evaluates \<open>_alwaysIgnoreCachedList.concat(utilityData.ignore)\<close> and
  drops the array that \<open>concat\<close> returns: \<open>_alwaysIgnoreCachedList\<close> itself stays as it is.
\<close>

definition loadUtilityFile :: "bool \<Rightarrow> ignoreList \<Rightarrow> world \<Rightarrow> world" where
  "loadUtilityFile err utilityData w =
     (if \<not> err then
        (if \<not> containsCondition utilityData then
           (let w1 = w\<lparr>alwaysIgnoreFiles := alwaysIgnoreFiles w @ [utilityData]\<rparr>;
                dropped = alwaysIgnoreCachedList w1 @ ignore utilityData
            in w1)
         else w\<lparr>ignoreOnlyWithCondition := ignoreOnlyWithCondition w @ [utilityData]\<rparr>)
      else w)"

definition isValidMode :: "ignoreList \<Rightarrow> world \<Rightarrow> bool" where
  "isValidMode ignoreList w =
     (case ignoreMode ignoreList of
        None \<Rightarrow> False
      | Some modes \<Rightarrow>
          ''Mode.all'' \<in> set modes \<or>
          (case currentModeName w of None \<Rightarrow> False | Some m \<Rightarrow> m \<in> set modes) \<or>
          ((case currentModeName w of None \<Rightarrow> True | Some m \<Rightarrow> m = ''null'') \<and>
           ''Mode.all'' \<in> set modes))"

definition utilityMustBeLoadedManually :: "ignoreList \<Rightarrow> bool" where
  "utilityMustBeLoadedManually ignoreList = (mustBeManuallyLoaded ignoreList = Some True)"

text \<open>The next two functions return \<open>true\<close> or \<open>null\<close>: \<open>Some True\<close> or \<open>None\<close>.\<close>

definition checkIgnoreAfter :: "ignoreList \<Rightarrow> string \<Rightarrow> string \<Rightarrow> bool option" where
  "checkIgnoreAfter ignoreList beforeContext word =
     (case ignoreAfter ignoreList of
        None \<Rightarrow> None
      | Some a \<Rightarrow>
          if length a > 0 \<and> a = beforeContext \<and> word \<in> set (ignore ignoreList)
          then Some True else None)"

definition shouldWordBeIgnoredBasedOnDocumentContents ::
    "ignoreList \<Rightarrow> string \<Rightarrow> world \<Rightarrow> bool option" where
  "shouldWordBeIgnoredBasedOnDocumentContents ignoreList word w =
     (case (ignoreWhenDocumentContains ignoreList, currentDocumentContents w) of
        (Some subs, Some contents) \<Rightarrow>
          if length subs > 0 \<and>
             list_ex (\<lambda>sub. hasSubstring contents sub \<and> word \<in> set (ignore ignoreList)) subs
          then Some True else None
      | _ \<Rightarrow> None)"

fun shouldWordBeIgnoredWithContextFrom :: "ignoreList list \<Rightarrow> string \<Rightarrow> string \<Rightarrow> world \<Rightarrow> bool" where
  "shouldWordBeIgnoredWithContextFrom [] word beforeContext w = False"
| "shouldWordBeIgnoredWithContextFrom (ignoreList # rest) word beforeContext w =
     (if checkIgnoreAfter ignoreList beforeContext word \<noteq> None then True
      else if (case ignoreMode ignoreList of None \<Rightarrow> False | Some m \<Rightarrow> length m > 0) \<and>
              isValidMode ignoreList w \<and> \<not> utilityMustBeLoadedManually ignoreList \<and>
              (checkIgnoreAfter ignoreList beforeContext word \<noteq> None \<or>
               shouldWordBeIgnoredBasedOnDocumentContents ignoreList word w \<noteq> None \<or>
               word \<in> set (ignore ignoreList))
           then True
      else shouldWordBeIgnoredWithContextFrom rest word beforeContext w)"

definition shouldWordBeIgnoredWithContext :: "string \<Rightarrow> string \<Rightarrow> world \<Rightarrow> bool" where
  "shouldWordBeIgnoredWithContext word beforeContext w =
     shouldWordBeIgnoredWithContextFrom (ignoreOnlyWithCondition w) word beforeContext w"

text \<open>\<open>beforeContext\<close> is the separator buffer of the overlay, a string; it is never \<open>null\<close>.\<close>

definition shouldIgnore :: "string \<Rightarrow> string \<Rightarrow> world \<Rightarrow> bool" where
  "shouldIgnore word beforeContext w =
     (if word \<in> set (alwaysIgnoreCachedList w) then True
      else if length beforeContext = 0 then False
      else shouldWordBeIgnoredWithContext word beforeContext w)"

definition setModeName :: "string option \<Rightarrow> world \<Rightarrow> world" where
  "setModeName mode w = w\<lparr>currentModeName := mode\<rparr>"

definition setDocumentContents :: "string option \<Rightarrow> world \<Rightarrow> world" where
  "setDocumentContents contents w = w\<lparr>currentDocumentContents := contents\<rparr>"

section \<open>ProfileManager\<close>

text \<open>
  \<open>_availableProfiles\<close> starts as an empty Array and becomes, when the user profiles have
  been read and \<open>_initialized\<close> is set, an object without prototype that maps the profile
  names to the profiles. \<open>hasProfile\<close> tests \<open>typeof _availableProfiles[profileName]\<close>:
  before the profiles are read it answers \<open>true\<close> for the property names of an empty
  Array and for nothing else; afterwards it answers for the names of the profiles.
\<close>

definition hasProfile :: "string \<Rightarrow> world \<Rightarrow> bool" where
  "hasProfile profileName w =
     (if pm_initialized w then availableProfiles w profileName \<noteq> None
      else profileName \<in> set (emptyArrayProperties w))"

text \<open>\<open>getProfileItems\<close> returns the items or \<open>null\<close> (\<open>None\<close>).\<close>

definition getProfileItems :: "string \<Rightarrow> world \<Rightarrow> profileItem list option" where
  "getProfileItems profileName w =
     (if pm_initialized w \<and> hasProfile profileName w
      then map_option items (availableProfiles w profileName)
      else None)"

text \<open>
  \<open>_initialize\<close>: when the user profiles have been read, they take the place of the empty
  Array and \<open>_initialized\<close> is set.
\<close>

definition initializeProfiles :: "(string \<rightharpoonup> profileData) \<Rightarrow> world \<Rightarrow> world" where
  "initializeProfiles userProfiles w =
     w\<lparr>availableProfiles := userProfiles, pm_initialized := True\<rparr>"

section \<open>Dictionary.js and Paths.js\<close>

definition getExtensionsDirectory :: "world \<Rightarrow> string" where
  "getExtensionsDirectory w = applicationSupportDirectory w @ ''/extensions''"

definition getDictionaryPath :: "string \<Rightarrow> world \<Rightarrow> string" where
  "getDictionaryPath path w =
     getExtensionsDirectory w @ ''/user/'' @ ''stillat.alice.linguistics-dictionary'' @ ''/'' @ path"

definition getNaturalLanguageDirectory :: "world \<Rightarrow> string" where
  "getNaturalLanguageDirectory w = getDictionaryPath ''natural-languages'' w"

definition getDictionaryFilePath :: "string \<Rightarrow> string \<Rightarrow> world \<Rightarrow> string" where
  "getDictionaryFilePath nm extension w =
     getNaturalLanguageDirectory w @ ''/'' @ nm @ ''/'' @ nm @ ''.'' @ extension"

definition getAffixFile :: "string \<Rightarrow> world \<Rightarrow> string" where
  "getAffixFile localeName w = getDictionaryFilePath localeName ''aff'' w"

definition getDictionaryFile :: "string \<Rightarrow> world \<Rightarrow> string" where
  "getDictionaryFile localeName w = getDictionaryFilePath localeName ''dic'' w"

section \<open>DictionaryManager\<close>

definition hasDictionariesLoaded :: "world \<Rightarrow> bool" where
  "hasDictionariesLoaded w = (length (dictionaries w) > 0)"

text \<open>
  \<open>exports.trigger\<close> records the event and runs the listeners at once. The listeners of
  the core are the three that SpellChecker registers for its \<open>_initialized\<close> flag; they do
  not look at the locale that comes with the event. The status bar (LocaleStatusBar.js), a
  collaborator outside the core, also listens to \<open>dictionaryLoaded\<close>: inside the same
  trigger it sets the locale of the active editor again, through \<open>setLocaleName\<close>. That
  call depends on the state of the user interface and is not part of \<open>trigger\<close> here; in
  the model it is a \<open>setLocaleName\<close> that the host may run after the event.
\<close>

definition trigger :: "event \<Rightarrow> world \<Rightarrow> world" where
  "trigger ev w =
     (let w1 = w\<lparr>effects := effects w @ [Trigger ev]\<rparr>
      in case ev of
           DictionariesUnloaded \<Rightarrow> w1\<lparr>sc_initialized := False\<rparr>
         | DictionaryUnloaded localeName \<Rightarrow> w1\<lparr>sc_initialized := hasDictionariesLoaded w1\<rparr>
         | DictionaryLoaded localeName \<Rightarrow> w1\<lparr>sc_initialized := True\<rparr>
         | DictionaryFailedToLoad localeName \<Rightarrow> w1)"

definition unloadDictionary :: "string \<Rightarrow> world \<Rightarrow> world" where
  "unloadDictionary localeName w =
     trigger (DictionaryUnloaded localeName)
       (w\<lparr>dictionaries := AList.delete localeName (dictionaries w)\<rparr>)"

text \<open>
  Reading a property of \<open>_dictionaries[localeName]\<close> when there is no such entry throws a
  \<open>TypeError\<close>, as does calling a method of a \<open>typo\<close> that is still \<open>null\<close>.
  The parameter \<open>Typo\<close> is the constructor of the lexicon.
\<close>

definition performTypoInitializationOnLocale ::
    "(string \<Rightarrow> string option \<Rightarrow> string option \<Rightarrow> typo) \<Rightarrow> string \<Rightarrow> world \<Rightarrow> error + world" where
  "performTypoInitializationOnLocale Typo localeName w =
     (case map_of (dictionaries w) localeName of
        None \<Rightarrow> Inl TypeError
      | Some d \<Rightarrow>
          if affixLoaded d = Some True \<and> dictionaryLoaded d = Some True then
            Inr (trigger (DictionaryLoaded localeName)
                   (w\<lparr>dictionaries :=
                         AList.update localeName
                           (d\<lparr>typo := Some (Typo localeName (affixData d) (dictionaryData d)),
                              initialized := True\<rparr>)
                           (dictionaries w),
                       dictionariesBeingLoaded := removeAll localeName (dictionariesBeingLoaded w),
                       effects := effects w @ [NewTypo localeName]\<rparr>))
          else Inr w)"

definition checkDictionaryForCleanUp :: "string \<Rightarrow> world \<Rightarrow> error + world" where
  "checkDictionaryForCleanUp localeName w =
     (case map_of (dictionaries w) localeName of
        None \<Rightarrow> Inl TypeError
      | Some d \<Rightarrow>
          if affixLoaded d = None \<and> dictionaryLoaded d = None then
            (let w1 = unloadDictionary localeName w;
                 w2 = w1\<lparr>dictionariesBeingLoaded :=
                           removeAll localeName (dictionariesBeingLoaded w1)\<rparr>
             in Inr (trigger (DictionaryFailedToLoad localeName) w2))
          else Inr w)"

text \<open>
  \<open>_initializeDictionaryData\<close> starts the two reads. Their completion callbacks run later,
  each once, in either order: \<open>affixRead\<close> and \<open>dictionaryRead\<close> below, with the
  \<open>err\<close> (\<open>None\<close> for \<open>null\<close>) and the \<open>data\<close> that the host passes.
\<close>

definition initializeDictionaryData :: "string \<Rightarrow> string \<Rightarrow> string \<Rightarrow> world \<Rightarrow> world" where
  "initializeDictionaryData localeName affixFile dictionaryFile w =
     w\<lparr>effects := effects w @ [ReadFile affixFile, ReadFile dictionaryFile]\<rparr>"

definition affixRead ::
    "(string \<Rightarrow> string option \<Rightarrow> string option \<Rightarrow> typo) \<Rightarrow> string \<Rightarrow> string option \<Rightarrow> string \<Rightarrow>
     world \<Rightarrow> error + world" where
  "affixRead Typo localeName err data w =
     (case map_of (dictionaries w) localeName of
        None \<Rightarrow> Inl TypeError
      | Some d \<Rightarrow>
          if err = None then
            performTypoInitializationOnLocale Typo localeName
              (w\<lparr>dictionaries :=
                    AList.update localeName (d\<lparr>affixData := Some data, affixLoaded := Some True\<rparr>)
                      (dictionaries w)\<rparr>)
          else
            checkDictionaryForCleanUp localeName
              (w\<lparr>dictionaries :=
                    AList.update localeName (d\<lparr>affixLoaded := None\<rparr>) (dictionaries w)\<rparr>))"

definition dictionaryRead ::
    "(string \<Rightarrow> string option \<Rightarrow> string option \<Rightarrow> typo) \<Rightarrow> string \<Rightarrow> string option \<Rightarrow> string \<Rightarrow>
     world \<Rightarrow> error + world" where
  "dictionaryRead Typo localeName err data w =
     (case map_of (dictionaries w) localeName of
        None \<Rightarrow> Inl TypeError
      | Some d \<Rightarrow>
          if err = None then
            performTypoInitializationOnLocale Typo localeName
              (w\<lparr>dictionaries :=
                    AList.update localeName
                      (d\<lparr>dictionaryData := Some data, dictionaryLoaded := Some True\<rparr>)
                      (dictionaries w)\<rparr>)
          else
            checkDictionaryForCleanUp localeName
              (w\<lparr>dictionaries :=
                    AList.update localeName (d\<lparr>dictionaryLoaded := None\<rparr>) (dictionaries w)\<rparr>))"

definition hasDictionary :: "string \<Rightarrow> bool \<Rightarrow> world \<Rightarrow> bool" where
  "hasDictionary localeName safeMode w =
     (case map_of (dictionaries w) localeName of
        None \<Rightarrow> False
      | Some d \<Rightarrow> if \<not> safeMode then True else initialized d)"

definition loadDictionaryFilesForLocale :: "string \<Rightarrow> world \<Rightarrow> world" where
  "loadDictionaryFilesForLocale localeName w =
     (let affixPath = getAffixFile localeName w;
          dictionaryPath = getDictionaryFile localeName w;
          w1 = w\<lparr>dictionaries :=
                   AList.update localeName
                     \<lparr> initialized = False,
                       dictionaryLoaded = Some False,
                       affixLoaded = Some False,
                       affixData = None,
                       dictionaryData = None,
                       typo = None,
                       localeOf = localeName \<rparr>
                     (dictionaries w)\<rparr>
      in if fileForPath w affixPath \<and> fileForPath w dictionaryPath then
           initializeDictionaryData localeName affixPath dictionaryPath
             (w1\<lparr>dictionariesBeingLoaded :=
                    List.insert localeName (dictionariesBeingLoaded w1)\<rparr>)
         else unloadDictionary localeName w1)"

text \<open>Locale names are strings here; the source also bails out on \<open>null\<close>.\<close>

definition loadDictionary :: "string \<Rightarrow> world \<Rightarrow> world" where
  "loadDictionary localeName w =
     (if localeName \<in> set (dictionariesBeingLoaded w) then w
      else if hasProfile localeName w \<or> hasDictionary localeName False w then w
      else loadDictionaryFilesForLocale localeName w)"

definition unloadAllDictionaries :: "world \<Rightarrow> world" where
  "unloadAllDictionaries w = trigger DictionariesUnloaded (w\<lparr>dictionaries := []\<rparr>)"

definition setDefaultLocale :: "string \<Rightarrow> world \<Rightarrow> world" where
  "setDefaultLocale l w = w\<lparr>defaultLocale := l\<rparr>"

text \<open>
  The loop of \<open>check\<close> over the items of a profile. It answers \<open>true\<close> at the first ready
  dictionary that accepts the word and \<open>false\<close> after the last item; a dictionary that is not
  ready is asked to load and skipped.
\<close>

fun checkProfileItems :: "string \<Rightarrow> profileItem list \<Rightarrow> world \<Rightarrow> error + (bool \<times> world)" where
  "checkProfileItems word [] w = Inr (False, w)"
| "checkProfileItems word (item # rest) w =
     (if hasDictionary (name item) True w then
        (case map_of (dictionaries w) (name item) of
           None \<Rightarrow> Inl TypeError
         | Some d \<Rightarrow>
             (case typo d of
                None \<Rightarrow> Inl TypeError
              | Some t \<Rightarrow>
                  if typo_check t word then Inr (True, w)
                  else checkProfileItems word rest w))
      else checkProfileItems word rest (loadDictionary (name item) w))"

text \<open>
  \<open>check(word, localeName)\<close> returns \<open>true\<close>, \<open>false\<close> or \<open>null\<close> (\<open>None\<close>); an
  \<open>undefined\<close> locale (\<open>None\<close>) stands for the default locale.
\<close>

definition check :: "string \<Rightarrow> string option \<Rightarrow> world \<Rightarrow> error + (bool option \<times> world)" where
  "check word localeName w =
     (let l = (case localeName of None \<Rightarrow> defaultLocale w | Some l' \<Rightarrow> l')
      in case (if hasProfile l w then getProfileItems l w else None) of
           Some profileItems \<Rightarrow>
             (case checkProfileItems word profileItems w of
                Inl e \<Rightarrow> Inl e
              | Inr (b, w') \<Rightarrow> Inr (Some b, w'))
         | None \<Rightarrow>
             if hasDictionary l True w then
               (case map_of (dictionaries w) l of
                  None \<Rightarrow> Inl TypeError
                | Some d \<Rightarrow>
                    (case typo d of
                       None \<Rightarrow> Inl TypeError
                     | Some t \<Rightarrow> Inr (Some (typo_check t word), w)))
             else Inr (None, w))"

text \<open>
  \<open>suggest(word, localeName)\<close>: a falsy locale (\<open>undefined\<close> or the empty string) stands for
  the default locale. The result is the list of suggestions or \<open>null\<close> (\<open>None\<close>).
\<close>

definition suggest :: "string \<Rightarrow> string option \<Rightarrow> world \<Rightarrow> error + string list option" where
  "suggest word localeName w =
     (let l = (case localeName of
                 None \<Rightarrow> defaultLocale w
               | Some l' \<Rightarrow> if l' = [] then defaultLocale w else l')
      in if hasDictionary l False w then
           (case map_of (dictionaries w) l of
              None \<Rightarrow> Inl TypeError
            | Some d \<Rightarrow>
                (case typo d of
                   None \<Rightarrow> Inl TypeError
                 | Some t \<Rightarrow> Inr (Some (typo_suggest t word))))
         else Inr None)"

section \<open>SpellChecker\<close>

definition commonProgrammingKeywords :: "string list" where
  "commonProgrammingKeywords = [''foreach'', ''json'', ''aff'', ''dic'', ''url'', ''src'']"

text \<open>The two switches of \<open>_experimentalFeatures\<close>; nothing in the source changes them.\<close>

definition attemptIntelligentQuoteDetection :: bool where
  "attemptIntelligentQuoteDetection = True"

definition automaticallyDetectCamelCaseWords :: bool where
  "automaticallyDetectCamelCaseWords = True"

definition singleQuote :: char where
  "singleQuote = CHR 0x27"

definition doubleQuote :: char where
  "doubleQuote = CHR 0x22"

definition isCommonTerm :: "string \<Rightarrow> bool" where
  "isCommonTerm word = (word \<in> set commonProgrammingKeywords)"

text \<open>
  \<open>_checkSpellingOfCamelCaseWord\<close> goes through the parts and returns \<open>false\<close> at the first
  part for which \<open>check\<close> is falsy (\<open>false\<close> or \<open>null\<close>).
\<close>

fun checkParts :: "string list \<Rightarrow> world \<Rightarrow> error + (bool \<times> world)" where
  "checkParts [] w = Inr (True, w)"
| "checkParts (part # rest) w =
     (case check part None w of
        Inl e \<Rightarrow> Inl e
      | Inr (r, w') \<Rightarrow> if r \<noteq> Some True then Inr (False, w') else checkParts rest w')"

definition checkSpellingOfCamelCaseWord :: "string \<Rightarrow> world \<Rightarrow> error + (bool \<times> world)" where
  "checkSpellingOfCamelCaseWord word w = checkParts (splitByUpperCase word) w"

text \<open>
  \<open>_checkSpellingBetweenCharacter\<close> returns \<open>false\<close>, \<open>true\<close> or the number \<open>-1\<close>.
  Its local \<open>_seemsCorrect\<close> is \<open>null\<close>, \<open>true\<close> or \<open>false\<close>.
\<close>

datatype boolOrInt = B bool | I int

definition checkSpellingBetweenCharacter ::
    "string \<Rightarrow> char \<Rightarrow> world \<Rightarrow> error + (boolOrInt \<times> world)" where
  "checkSpellingBetweenCharacter word character w =
     (let seemsCorrect =
            (if startsWith word [character] \<and> endsWith word [character] then
               (let baseWord = trimChar word character
                in if isCamelCase baseWord then
                     (case checkSpellingOfCamelCaseWord baseWord w of
                        Inl e \<Rightarrow> Inl e
                      | Inr (b, w') \<Rightarrow> Inr (Some b, w'))
                   else check baseWord None w)
             else if endsWith word [character] then
               check (substr word 0 (int (length word) - 1)) None w
             else if startsWith word [character] then
               check (substr word 1 (int (length word) - 1)) None w
             else Inr (None, w))
      in case seemsCorrect of
           Inl e \<Rightarrow> Inl e
         | Inr (s, w') \<Rightarrow>
             if s = Some False then Inr (B False, w')
             else if s = Some True then Inr (I (- 1), w')
             else Inr (B True, w'))"

text \<open>
  \<open>_hasCorrectSpelling\<close> returns \<open>true\<close>, \<open>false\<close> or, where it hands back the result of
  \<open>check\<close>, \<open>null\<close> (\<open>None\<close>). The quote step and what follows it are the two functions
  after it.
\<close>

definition camelCaseOrCheck :: "string \<Rightarrow> world \<Rightarrow> error + (bool option \<times> world)" where
  "camelCaseOrCheck word w =
     (if automaticallyDetectCamelCaseWords \<and> isCamelCase word then
        (case checkSpellingOfCamelCaseWord word w of
           Inl e \<Rightarrow> Inl e
         | Inr (b, w') \<Rightarrow> Inr (Some b, w'))
      else check word None w)"

definition quoteDetection :: "string \<Rightarrow> world \<Rightarrow> error + (bool option \<times> world)" where
  "quoteDetection word w =
     (if attemptIntelligentQuoteDetection then
        (case (if startsWith word [singleQuote] \<or> endsWith word [singleQuote]
               then checkSpellingBetweenCharacter word singleQuote w
               else Inr (B True, w)) of
           Inl e \<Rightarrow> Inl e
         | Inr (quotesSeemCorrect, w1) \<Rightarrow>
             (case (if startsWith word [doubleQuote] \<or> endsWith word [doubleQuote]
                    then checkSpellingBetweenCharacter word doubleQuote w1
                    else Inr (B True, w1)) of
                Inl e \<Rightarrow> Inl e
              | Inr (doubleQuotesSeemCorrect, w2) \<Rightarrow>
                  if quotesSeemCorrect = I (- 1) \<or> doubleQuotesSeemCorrect = I (- 1)
                  then Inr (Some True, w2)
                  else if quotesSeemCorrect = B False \<or> doubleQuotesSeemCorrect = B False
                  then Inr (Some False, w2)
                  else camelCaseOrCheck word w2))
      else camelCaseOrCheck word w)"

definition hasCorrectSpelling :: "string \<Rightarrow> world \<Rightarrow> error + (bool option \<times> world)" where
  "hasCorrectSpelling word w =
     (if isCommonTerm word then Inr (Some True, w)
      else if \<not> parseFloat_isNaN word then Inr (Some True, w)
      else if spellingIgnoreUppercase w \<and> toUpperCase word = Some word then Inr (Some True, w)
      else if spellingIgnoreUppercase w \<and> endsWith word [singleQuote, CHR ''s''] \<and>
              (let baseWord = substr word 0 (int (length word) - 2)
               in toUpperCase baseWord = Some baseWord)
           then Inr (Some True, w)
      else if spellingIgnoreUppercase w \<and>
              endsWith word [singleQuote] \<and> \<not> startsWith word [singleQuote] \<and>
              (let firstCharacter = substr word 0 1
               in toUpperCase firstCharacter = Some firstCharacter)
           then check (substr word 0 (int (length word) - 1)) None w
      else quoteDetection word w)"

text \<open>
  The overlay. \<open>_lastWordSeparatorDirty\<close> and \<open>_lastWordSeparator\<close> are written by
  \<open>token\<close> only; they form the scanner state, kept apart from the rest of the world.
  The stream is the rest of the line: \<open>peek\<close> is its first character, \<open>next\<close> drops it,
  \<open>skipToEnd\<close> empties it.
\<close>

record scanner =
  lastWordSeparatorDirty :: bool
  lastWordSeparator :: string

definition initialScanner :: scanner where
  "initialScanner = \<lparr> lastWordSeparatorDirty = True, lastWordSeparator = [] \<rparr>"

definition peek :: "string \<Rightarrow> char option" where
  "peek stream = (case stream of [] \<Rightarrow> None | c # _ \<Rightarrow> Some c)"

definition errorStyle :: string where
  "errorStyle = ''alice-error-visualization alice-spelling-visualization''"

text \<open>
  What one call of \<open>token\<close> leaves behind: the scanner state, the rest of the stream, the
  word and the before-context for which it reached a verdict (\<open>delivered\<close>, if it did), and
  either the error thrown or the style returned (\<open>None\<close> for \<open>null\<close>) with the new world.
  An error thrown by the spelling check leaves the scanner as it was before the check.
\<close>

record tokenResult =
  scannerAfter :: scanner
  streamAfter :: string
  delivered :: "(string \<times> string) option"
  returned :: "error + (string option \<times> world)"

definition token :: "world \<Rightarrow> scanner \<Rightarrow> string \<Rightarrow> tokenResult" where
  "token w sc stream =
     (let sc1 = (if lastWordSeparatorDirty sc
                 then \<lparr> lastWordSeparatorDirty = False, lastWordSeparator = [] \<rparr>
                 else sc)
      in if \<not> sc_initialized w then
           \<lparr> scannerAfter = sc1, streamAfter = [], delivered = None, returned = Inr (None, w) \<rparr>
         else if isWordSeparator (peek stream) then
           \<lparr> scannerAfter = sc1\<lparr>lastWordSeparator := lastWordSeparator sc1 @ [hd stream]\<rparr>,
             streamAfter = tl stream, delivered = None, returned = Inr (None, w) \<rparr>
         else
           (let word = takeWhile (\<lambda>c. \<not> isWordSeparator (Some c)) stream;
                rest = dropWhile (\<lambda>c. \<not> isWordSeparator (Some c)) stream
            in case hasCorrectSpelling word w of
                 Inl e \<Rightarrow>
                   \<lparr> scannerAfter = sc1, streamAfter = rest, delivered = None, returned = Inl e \<rparr>
               | Inr (r, w') \<Rightarrow>
                   \<lparr> scannerAfter = sc1\<lparr>lastWordSeparatorDirty := True\<rparr>,
                     streamAfter = rest,
                     delivered = Some (word, lastWordSeparator sc1),
                     returned =
                       (if r \<noteq> Some True \<and> \<not> shouldIgnore word (lastWordSeparator sc1) w'
                        then Inr (Some errorStyle, w')
                        else Inr (None, w')) \<rparr>))"

definition setLocaleName :: "string \<Rightarrow> world \<Rightarrow> world" where
  "setLocaleName localeName w = loadDictionary localeName (setDefaultLocale localeName w)"

section \<open>Examples of states\<close>

text \<open>
  A lexicon that accepts the words of a list, and the world reached from the initial one by
  selecting a locale and reading both of its files with success.
\<close>

definition wordList :: "string list \<Rightarrow> typo" where
  "wordList ws = \<lparr> typo_check = (\<lambda>word. word \<in> set ws), typo_suggest = (\<lambda>word. ws) \<rparr>"

definition unconditionalFile :: "string list \<Rightarrow> ignoreList" where
  "unconditionalFile ws =
     \<lparr> ignore = ws, ignoreAfter = None, ignoreMode = None,
       ignoreWhenDocumentContains = None, mustBeManuallyLoaded = None \<rparr>"

definition loadedWorld :: "string \<Rightarrow> typo \<Rightarrow> world" where
  "loadedWorld localeName t =
     (case affixRead (\<lambda>l a d. t) localeName None ''SET UTF-8''
             (setLocaleName localeName (initialWorld [] (\<lambda>path. True))) of
        Inl e \<Rightarrow> initialWorld [] (\<lambda>path. True)
      | Inr w1 \<Rightarrow>
          (case dictionaryRead (\<lambda>l a d. t) localeName None ''0'' w1 of
             Inl e \<Rightarrow> initialWorld [] (\<lambda>path. True)
           | Inr w2 \<Rightarrow> w2))"

text \<open>
  The world after the locale \<open>fr_FR\<close> has been loaded and the user has then selected
  \<open>en_US\<close>, whose two reads are still pending.
\<close>

definition switchedWorld :: world where
  "switchedWorld = setLocaleName ''en_US'' (loadedWorld ''fr_FR'' (wordList [''bonjour'']))"

text \<open>A world with the profile \<open>mine\<close> over the two ready dictionaries \<open>en_US\<close> and \<open>med\<close>.\<close>

definition readyEntry :: "string \<Rightarrow> typo \<Rightarrow> dictionary" where
  "readyEntry localeName t =
     \<lparr> initialized = True, dictionaryLoaded = Some True, affixLoaded = Some True,
       affixData = Some [], dictionaryData = Some [], typo = Some t, localeOf = localeName \<rparr>"

definition dictionaryItem :: "string \<Rightarrow> profileItem" where
  "dictionaryItem localeName = \<lparr> name = localeName, type = ''dictionary'' \<rparr>"

definition profileWorld :: world where
  "profileWorld =
     (initialWorld [] (\<lambda>path. True))
       \<lparr> defaultLocale := ''mine'',
         dictionaries := [(''en_US'', readyEntry ''en_US'' (wordList [''heart''])),
                          (''med'', readyEntry ''med'' (wordList [''aorta'']))],
         availableProfiles :=
           [''mine'' \<mapsto> \<lparr> profile = ''mine'',
                           items = [dictionaryItem ''en_US'', dictionaryItem ''med''] \<rparr>],
         pm_initialized := True,
         sc_initialized := True \<rparr>"

text \<open>
  The world after \<open>fr_FR\<close> has been loaded, the user profiles have been read and the user
  has selected the profile \<open>mine\<close>, none of whose two dictionaries has been asked for yet.
\<close>

definition profileSelectedWorld :: world where
  "profileSelectedWorld =
     setLocaleName ''mine''
       (initializeProfiles
          [''mine'' \<mapsto> \<lparr> profile = ''mine'',
                          items = [dictionaryItem ''en_US'', dictionaryItem ''med''] \<rparr>]
          (loadedWorld ''fr_FR'' (wordList [''bonjour''])))"

section \<open>Runs of a load\<close>

text \<open>
  What can happen to a locale while the host runs: a further request to load it, and the
  completion of each of its two reads, with the error (\<open>None\<close> for \<open>null\<close>) and the data.
\<close>

datatype loadStep =
    LoadAgain
  | AffixDone "string option" string
  | DictionaryDone "string option" string

fun doStep ::
    "(string \<Rightarrow> string option \<Rightarrow> string option \<Rightarrow> typo) \<Rightarrow> string \<Rightarrow> loadStep \<Rightarrow> world \<Rightarrow> error + world" where
  "doStep Typo localeName LoadAgain w = Inr (loadDictionary localeName w)"
| "doStep Typo localeName (AffixDone err data) w = affixRead Typo localeName err data w"
| "doStep Typo localeName (DictionaryDone err data) w = dictionaryRead Typo localeName err data w"

fun runSteps ::
    "(string \<Rightarrow> string option \<Rightarrow> string option \<Rightarrow> typo) \<Rightarrow> string \<Rightarrow> loadStep list \<Rightarrow> world \<Rightarrow>
     error + world" where
  "runSteps Typo localeName [] w = Inr w"
| "runSteps Typo localeName (s # ss) w =
     (case doStep Typo localeName s w of
        Inl e \<Rightarrow> Inl e
      | Inr w' \<Rightarrow> runSteps Typo localeName ss w')"

text \<open>
  The states of an entry. It is loading with both reads pending when it is registered in
  \<open>_dictionariesBeingLoaded\<close> and neither flag has left \<open>false\<close>; it is ready with the
  lexicon \<open>t\<close> when it is initialized and \<open>t\<close> is its \<open>typo\<close>.
\<close>

definition loading :: "string \<Rightarrow> world \<Rightarrow> bool" where
  "loading localeName w =
     (localeName \<in> set (dictionariesBeingLoaded w) \<and>
      (case map_of (dictionaries w) localeName of
         None \<Rightarrow> False
       | Some d \<Rightarrow> affixLoaded d = Some False \<and> dictionaryLoaded d = Some False \<and>
                   \<not> initialized d))"

definition ready :: "string \<Rightarrow> typo \<Rightarrow> world \<Rightarrow> bool" where
  "ready localeName t w =
     (case map_of (dictionaries w) localeName of
        None \<Rightarrow> False
      | Some d \<Rightarrow> initialized d \<and> typo d = Some t)"

text \<open>The answer of a call, without the world it leaves.\<close>

definition answer :: "error + ('a \<times> world) \<Rightarrow> error + 'a" where
  "answer r = (case r of Inl e \<Rightarrow> Inl e | Inr (v, w') \<Rightarrow> Inr v)"

text \<open>A step that does not report a failed read.\<close>

definition successful :: "loadStep \<Rightarrow> bool" where
  "successful s =
     (case s of
        LoadAgain \<Rightarrow> True
      | AffixDone err data \<Rightarrow> err = None
      | DictionaryDone err data \<Rightarrow> err = None)"

text \<open>The world right after the first request to load \<open>en_US\<close>.\<close>

definition loadingWorld :: world where
  "loadingWorld = loadDictionary ''en_US'' (initialWorld [] (\<lambda>path. True))"

text \<open>The world \<open>profileWorld\<close> with the two items of its profile in the other order.\<close>

definition swappedProfileWorld :: world where
  "swappedProfileWorld =
     profileWorld
       \<lparr> availableProfiles :=
           [''mine'' \<mapsto> \<lparr> profile = ''mine'',
                           items = [dictionaryItem ''med'', dictionaryItem ''en_US''] \<rparr>] \<rparr>"

section \<open>Runs of the overlay\<close>







section \<open>What a check depends on\<close>

text \<open>
  The lexicon that answers for a locale, if its entry is initialized, and the relation between
  two worlds that have the same default locale, the same profiles and the same such lexicons.
  These two notions serve the proofs only.
\<close>

definition readyTypo :: "string \<Rightarrow> world \<Rightarrow> typo option option" where
  "readyTypo l w =
     (case map_of (dictionaries w) l of
        None \<Rightarrow> None
      | Some d \<Rightarrow> if initialized d then Some (typo d) else None)"

definition sameReady :: "world \<Rightarrow> world \<Rightarrow> bool" where
  "sameReady w w' =
     (defaultLocale w' = defaultLocale w \<and> availableProfiles w' = availableProfiles w \<and>
      pm_initialized w' = pm_initialized w \<and>
      emptyArrayProperties w' = emptyArrayProperties w \<and>
      (\<forall>l. readyTypo l w' = readyTypo l w))"

section \<open>Evaluation rules\<close>

lemmas string_defs =
  lowerLetters_def upperLetters_def latin1Lower_def latin1Upper_def digits_def
  toUpperCaseChar_def toLowerCaseChar_def toLowerCase_def substr_def isWhiteSpace_def startsDecimalLiteral_def
  parseFloat_isNaN_def wordSeparators_def isString_def isWordSeparator_def startsWith_def
  endsWith_def trimChar_def isWordChar_def toCamelCase_def occurrences_def isCamelCase_def
  splitByUpperCase_def singleQuote_def doubleQuote_def

lemmas dm_defs =
  affixRead_def dictionaryRead_def performTypoInitializationOnLocale_def
  checkDictionaryForCleanUp_def unloadDictionary_def trigger_def hasDictionariesLoaded_def

lemmas load_defs =
  loadDictionary_def loadDictionaryFilesForLocale_def initializeDictionaryData_def
  hasProfile_def hasDictionary_def setLocaleName_def setDefaultLocale_def

text \<open>A character is a word separator exactly when it is one of \<open>_wordSeparators\<close>.\<close>

lemma hasSubstring_single: "hasSubstring xs [c] = (c \<in> set xs)"
  by (induction xs) auto

lemma toLowerCase_wordSeparators: "toLowerCase wordSeparators = wordSeparators"
  by (simp add: wordSeparators_def toLowerCase_def toLowerCaseChar_def upperLetters_def
      lowerLetters_def latin1Lower_def latin1Upper_def)

lemma isWordSeparator_Some: "isWordSeparator (Some c) = (c \<in> set wordSeparators)"
  by (simp add: isWordSeparator_def toLowerCase_wordSeparators hasSubstring_single)

lemma isWordSeparator_None: "\<not> isWordSeparator None"
  by (simp add: isWordSeparator_def)

lemmas sep_defs =
  isWordSeparator_Some isWordSeparator_None wordSeparators_def peek_def

section \<open>The ignore rules\<close>

lemma isValidMode_alwaysIgnoreFiles:
  "isValidMode r (w\<lparr>alwaysIgnoreFiles := fs\<rparr>) = isValidMode r w"
  by (simp add: isValidMode_def split: option.split)

lemma documentContents_alwaysIgnoreFiles:
  "shouldWordBeIgnoredBasedOnDocumentContents r word (w\<lparr>alwaysIgnoreFiles := fs\<rparr>) =
   shouldWordBeIgnoredBasedOnDocumentContents r word w"
  by (simp add: shouldWordBeIgnoredBasedOnDocumentContents_def split: option.split)

lemma shouldWordBeIgnoredWithContextFrom_alwaysIgnoreFiles:
  "shouldWordBeIgnoredWithContextFrom rules word ctx (w\<lparr>alwaysIgnoreFiles := fs\<rparr>) =
   shouldWordBeIgnoredWithContextFrom rules word ctx w"
  by (induction rules)
     (simp_all only: shouldWordBeIgnoredWithContextFrom.simps isValidMode_alwaysIgnoreFiles
        documentContents_alwaysIgnoreFiles)

text \<open>Loading a file without condition changes no answer of \<open>shouldIgnore\<close>.\<close>

lemma loadUtilityFile_unconditional:
  "\<not> containsCondition d \<Longrightarrow>
   shouldIgnore word ctx (loadUtilityFile err d w) = shouldIgnore word ctx w"
  by (simp add: loadUtilityFile_def shouldIgnore_def shouldWordBeIgnoredWithContext_def Let_def
        shouldWordBeIgnoredWithContextFrom_alwaysIgnoreFiles)

text \<open>
  C1. The claim: every word of the ignore list of a loaded file without condition is ignored
  by \<open>shouldIgnore\<close>, whatever the before-context. The code at a failing input: after the
  file with the ignore list \<open>[colour]\<close> is loaded into the initial state, \<open>shouldIgnore\<close>
  answers \<open>false\<close> for \<open>colour\<close> with every before-context, because the list built by
  \<open>concat\<close> is dropped.
\<close>

theorem C1_unconditional_ignore_list_dropped:
  "shouldIgnore ''colour'' beforeContext
     (loadUtilityFile False (unconditionalFile [''colour'']) (initialWorld dir files)) = False"
  by (simp add: loadUtilityFile_def shouldIgnore_def shouldWordBeIgnoredWithContext_def
        containsCondition_def initialWorld_def unconditionalFile_def)

section \<open>Suggestions\<close>

text \<open>
  C8. The claim: \<open>suggest\<close> returns \<open>null\<close> without faulting when the locale has no ready
  lexicon, also while its entry is still loading. The code at a failing input: right after
  \<open>loadDictionary\<close> has created the entry of \<open>en_US\<close>, with both reads pending,
  \<open>suggest\<close> throws a \<open>TypeError\<close>, because it asks \<open>hasDictionary\<close> without the safe
  mode and then calls \<open>suggest\<close> on the \<open>typo\<close> that is still \<open>null\<close>.
\<close>

theorem C8_suggest_faults_while_loading:
  "suggest word (Some ''en_US'') (loadDictionary ''en_US'' (initialWorld dir (\<lambda>path. True)))
   = Inl TypeError"
  by (simp add: suggest_def loadDictionary_def initialWorld_def hasProfile_def hasDictionary_def
        loadDictionaryFilesForLocale_def initializeDictionaryData_def arrayPropertyNames_def
        Let_def)

text \<open>
  The rest of the claim holds: a ready lexicon is asked, and a locale without an entry gives
  \<open>null\<close>.
\<close>

lemma suggest_ready:
  "ready l t w \<Longrightarrow> l \<noteq> [] \<Longrightarrow> suggest word (Some l) w = Inr (Some (typo_suggest t word))"
  by (auto simp: suggest_def hasDictionary_def ready_def split: option.splits)

lemma suggest_no_entry:
  "map_of (dictionaries w) l = None \<Longrightarrow> l \<noteq> [] \<Longrightarrow> suggest word (Some l) w = Inr None"
  by (simp add: suggest_def hasDictionary_def)

section \<open>The heuristics\<close>

text \<open>
  C10. Every word of which a prefix parses as a number, that is, for which
  \<open>isNaN(parseFloat(word))\<close> is false, is spelled correctly for \<open>_hasCorrectSpelling\<close>,
  in every state of the dictionaries; no dictionary is asked and the state is left as it is.
\<close>

theorem C10_numeric_prefix_correct:
  "\<not> parseFloat_isNaN word \<Longrightarrow> hasCorrectSpelling word w = Inr (Some True, w)"
  by (simp add: hasCorrectSpelling_def)

theorem C10_numeric_prefix_correct_witness:
  "\<not> parseFloat_isNaN ''3rd'' \<and>
   hasCorrectSpelling ''3rd'' (initialWorld [] (\<lambda>path. True))
     = Inr (Some True, initialWorld [] (\<lambda>path. True)) \<and>
   \<not> parseFloat_isNaN ''10px'' \<and>
   hasCorrectSpelling ''10px'' (initialWorld [] (\<lambda>path. True))
     = Inr (Some True, initialWorld [] (\<lambda>path. True))"
proof -
  have a: "\<not> parseFloat_isNaN ''3rd''"
    by (simp add: parseFloat_isNaN_def startsDecimalLiteral_def isWhiteSpace_def digits_def)
  have b: "\<not> parseFloat_isNaN ''10px''"
    by (simp add: parseFloat_isNaN_def startsDecimalLiteral_def isWhiteSpace_def digits_def)
  show ?thesis
    using a b C10_numeric_prefix_correct [OF a] C10_numeric_prefix_correct [OF b] by simp
qed

section \<open>Loading a dictionary\<close>

lemma loadDictionary_beingLoaded:
  "localeName \<in> set (dictionariesBeingLoaded w) \<Longrightarrow> loadDictionary localeName w = w"
  by (simp add: loadDictionary_def)

lemma loadDictionary_known:
  "hasDictionary localeName False w \<Longrightarrow> loadDictionary localeName w = w"
  by (simp add: loadDictionary_def)

lemma affixRead_ok_known:
  "affixRead Typo localeName None data w = Inr w' \<Longrightarrow> hasDictionary localeName False w'"
  by (auto simp: dm_defs hasDictionary_def update_conv' Let_def split: option.splits if_splits)

lemma dictionaryRead_ok_known:
  "dictionaryRead Typo localeName None data w = Inr w' \<Longrightarrow> hasDictionary localeName False w'"
  by (auto simp: dm_defs hasDictionary_def update_conv' Let_def split: option.splits if_splits)

lemma runSteps_skip_loads:
  "hasDictionary localeName False w \<Longrightarrow> list_all successful steps \<Longrightarrow>
   runSteps Typo localeName steps w = runSteps Typo localeName (filter (\<lambda>s. s \<noteq> LoadAgain) steps) w"
proof (induction steps arbitrary: w)
  case Nil
  then show ?case by simp
next
  case (Cons s steps)
  show ?case
  proof (cases s)
    case LoadAgain
    with Cons show ?thesis by (simp add: loadDictionary_known)
  next
    case (AffixDone err data)
    with Cons.prems have e: "err = None" by (simp add: successful_def)
    show ?thesis
    proof (cases "affixRead Typo localeName None data w")
      case (Inl a)
      then show ?thesis using AffixDone e by simp
    next
      case (Inr w')
      then have "hasDictionary localeName False w'" by (rule affixRead_ok_known)
      with Cons Inr AffixDone e show ?thesis by simp
    qed
  next
    case (DictionaryDone err data)
    with Cons.prems have e: "err = None" by (simp add: successful_def)
    show ?thesis
    proof (cases "dictionaryRead Typo localeName None data w")
      case (Inl a)
      then show ?thesis using DictionaryDone e by simp
    next
      case (Inr w')
      then have "hasDictionary localeName False w'" by (rule dictionaryRead_ok_known)
      with Cons Inr DictionaryDone e show ?thesis by simp
    qed
  qed
qed

lemma loading_entry:
  "loading localeName w \<Longrightarrow>
   localeName \<in> set (dictionariesBeingLoaded w) \<and>
   (\<exists>d. map_of (dictionaries w) localeName = Some d \<and> affixLoaded d = Some False \<and>
        dictionaryLoaded d = Some False \<and> \<not> initialized d)"
  by (simp add: loading_def split: option.splits)

lemma both_ok_affix_first:
  assumes "map_of (dictionaries w) localeName = Some d"
    and "affixLoaded d = Some False" and "dictionaryLoaded d = Some False"
  shows "\<exists>w'. runSteps Typo localeName [AffixDone None a, DictionaryDone None b] w = Inr w' \<and>
     effects w' = effects w @ [NewTypo localeName, Trigger (DictionaryLoaded localeName)] \<and>
     ready localeName (Typo localeName (Some a) (Some b)) w' \<and>
     localeName \<notin> set (dictionariesBeingLoaded w')"
  using assms by (simp add: dm_defs update_conv' ready_def Let_def)

lemma both_ok_dictionary_first:
  assumes "map_of (dictionaries w) localeName = Some d"
    and "affixLoaded d = Some False" and "dictionaryLoaded d = Some False"
  shows "\<exists>w'. runSteps Typo localeName [DictionaryDone None b, AffixDone None a] w = Inr w' \<and>
     effects w' = effects w @ [NewTypo localeName, Trigger (DictionaryLoaded localeName)] \<and>
     ready localeName (Typo localeName (Some a) (Some b)) w' \<and>
     localeName \<notin> set (dictionariesBeingLoaded w')"
  using assms by (simp add: dm_defs update_conv' ready_def Let_def)

lemma both_fail_affix_first:
  assumes "map_of (dictionaries w) localeName = Some d"
    and "affixLoaded d = Some False" and "dictionaryLoaded d = Some False"
  shows "\<exists>w'. runSteps Typo localeName [AffixDone (Some e1) a, DictionaryDone (Some e2) b] w = Inr w' \<and>
     map_of (dictionaries w') localeName = None \<and>
     localeName \<notin> set (dictionariesBeingLoaded w') \<and>
     effects w' = effects w @ [Trigger (DictionaryUnloaded localeName), Trigger (DictionaryFailedToLoad localeName)]"
  using assms by (simp add: dm_defs update_conv' delete_conv' Let_def)

lemma both_fail_dictionary_first:
  assumes "map_of (dictionaries w) localeName = Some d"
    and "affixLoaded d = Some False" and "dictionaryLoaded d = Some False"
  shows "\<exists>w'. runSteps Typo localeName [DictionaryDone (Some e2) b, AffixDone (Some e1) a] w = Inr w' \<and>
     map_of (dictionaries w') localeName = None \<and>
     localeName \<notin> set (dictionariesBeingLoaded w') \<and>
     effects w' = effects w @ [Trigger (DictionaryUnloaded localeName), Trigger (DictionaryFailedToLoad localeName)]"
  using assms by (simp add: dm_defs update_conv' delete_conv' Let_def)

text \<open>
  When both reads fail, in either order, the clean-up runs after the second failure: the
  entry is removed and \<open>dictionaryFailedToLoad\<close> is triggered once.
\<close>

lemma both_reads_failed_entry_removed:
  assumes "loading localeName w"
    and "steps = [AffixDone (Some e1) a, DictionaryDone (Some e2) b] \<or>
         steps = [DictionaryDone (Some e2) b, AffixDone (Some e1) a]"
  shows "\<exists>w'. runSteps Typo localeName steps w = Inr w' \<and>
     map_of (dictionaries w') localeName = None \<and>
     localeName \<notin> set (dictionariesBeingLoaded w') \<and>
     effects w' = effects w @ [Trigger (DictionaryUnloaded localeName),
                                Trigger (DictionaryFailedToLoad localeName)]"
proof -
  from loading_entry [OF assms(1)] obtain d where
    d: "map_of (dictionaries w) localeName = Some d" "affixLoaded d = Some False"
       "dictionaryLoaded d = Some False"
    by blast
  from assms(2) show ?thesis
  proof
    assume "steps = [AffixDone (Some e1) a, DictionaryDone (Some e2) b]"
    then show ?thesis using both_fail_affix_first [OF d] by simp
  next
    assume "steps = [DictionaryDone (Some e2) b, AffixDone (Some e1) a]"
    then show ?thesis using both_fail_dictionary_first [OF d] by simp
  qed
qed

text \<open>
  The clean-up asks for both flags to be \<open>null\<close>. After the first failure alone the entry
  is still there, and when the other read then succeeds it stays: not initialized, still
  registered as being loaded, and without any event. A further request to load the locale
  changes nothing.
\<close>

lemma first_failure_keeps_entry:
  assumes "loading localeName w"
  shows "\<exists>w'. affixRead Typo localeName (Some e) a w = Inr w' \<and> effects w' = effects w \<and>
     hasDictionary localeName False w' \<and> localeName \<in> set (dictionariesBeingLoaded w')"
  using loading_entry [OF assms]
  by (auto simp: dm_defs update_conv' hasDictionary_def Let_def)

lemma affix_failed_dictionary_loaded:
  assumes "loading localeName w"
  shows "\<exists>w'. runSteps Typo localeName [AffixDone (Some e) a, DictionaryDone None b] w = Inr w' \<and>
     effects w' = effects w \<and> localeName \<in> set (dictionariesBeingLoaded w') \<and>
     hasDictionary localeName False w' \<and> \<not> hasDictionary localeName True w'"
  using loading_entry [OF assms]
  by (auto simp: dm_defs update_conv' hasDictionary_def Let_def)

lemma dictionary_failed_affix_loaded:
  assumes "loading localeName w"
  shows "\<exists>w'. runSteps Typo localeName [DictionaryDone (Some e) b, AffixDone None a] w = Inr w' \<and>
     effects w' = effects w \<and> localeName \<in> set (dictionariesBeingLoaded w') \<and>
     hasDictionary localeName False w' \<and> \<not> hasDictionary localeName True w'"
  using loading_entry [OF assms]
  by (auto simp: dm_defs update_conv' hasDictionary_def Let_def)

lemma loadingWorld_loading: "loading ''en_US'' loadingWorld"
  by (simp add: loadingWorld_def load_defs loading_def initialWorld_def arrayPropertyNames_def Let_def)

lemma loadingWorld_effects:
  "Trigger (DictionaryFailedToLoad ''en_US'') \<notin> set (effects loadingWorld)"
  by (simp add: loadingWorld_def load_defs initialWorld_def arrayPropertyNames_def Let_def)

text \<open>
  C3. The claim: when one half of a load fails and the other has not completed with success,
  the entry of the locale is removed and \<open>dictionaryFailedToLoad\<close> is triggered once, so
  that no entry stays for good neither ready nor failed. The code at a failing input: the
  load of \<open>en_US\<close> is in progress, the affix read fails while the word-list read is
  pending, and the word-list read then succeeds (or the other way round). The run triggers
  no event at all; the entry stays, not initialized and still registered as being loaded,
  and a further \<open>loadDictionary\<close> for the locale leaves this state as it is.
\<close>

theorem C3_entry_stays_after_one_failed_read:
  "(\<exists>w'. runSteps (\<lambda>l a d. wordList []) ''en_US''
            [AffixDone (Some ''NotFound'') [], DictionaryDone None ''0''] loadingWorld = Inr w' \<and>
         Trigger (DictionaryFailedToLoad ''en_US'') \<notin> set (effects w') \<and>
         hasDictionary ''en_US'' False w' \<and> \<not> hasDictionary ''en_US'' True w' \<and>
         ''en_US'' \<in> set (dictionariesBeingLoaded w') \<and>
         loadDictionary ''en_US'' w' = w') \<and>
   (\<exists>w'. runSteps (\<lambda>l a d. wordList []) ''en_US''
            [DictionaryDone (Some ''NotFound'') [], AffixDone None ''SET UTF-8''] loadingWorld
            = Inr w' \<and>
         Trigger (DictionaryFailedToLoad ''en_US'') \<notin> set (effects w') \<and>
         hasDictionary ''en_US'' False w' \<and> \<not> hasDictionary ''en_US'' True w' \<and>
         ''en_US'' \<in> set (dictionariesBeingLoaded w') \<and>
         loadDictionary ''en_US'' w' = w')"
proof
  from affix_failed_dictionary_loaded [OF loadingWorld_loading] obtain w' where
    w': "runSteps (\<lambda>l a d. wordList []) ''en_US''
           [AffixDone (Some ''NotFound'') [], DictionaryDone None ''0''] loadingWorld = Inr w'"
      "effects w' = effects loadingWorld" "''en_US'' \<in> set (dictionariesBeingLoaded w')"
      "hasDictionary ''en_US'' False w'" "\<not> hasDictionary ''en_US'' True w'"
    by blast
  from w'(3) have "loadDictionary ''en_US'' w' = w'" by (rule loadDictionary_beingLoaded)
  with w' loadingWorld_effects
  show "\<exists>w'. runSteps (\<lambda>l a d. wordList []) ''en_US''
            [AffixDone (Some ''NotFound'') [], DictionaryDone None ''0''] loadingWorld = Inr w' \<and>
         Trigger (DictionaryFailedToLoad ''en_US'') \<notin> set (effects w') \<and>
         hasDictionary ''en_US'' False w' \<and> \<not> hasDictionary ''en_US'' True w' \<and>
         ''en_US'' \<in> set (dictionariesBeingLoaded w') \<and>
         loadDictionary ''en_US'' w' = w'"
    by auto
next
  from dictionary_failed_affix_loaded [OF loadingWorld_loading] obtain w' where
    w': "runSteps (\<lambda>l a d. wordList []) ''en_US''
           [DictionaryDone (Some ''NotFound'') [], AffixDone None ''SET UTF-8''] loadingWorld
           = Inr w'"
      "effects w' = effects loadingWorld" "''en_US'' \<in> set (dictionariesBeingLoaded w')"
      "hasDictionary ''en_US'' False w'" "\<not> hasDictionary ''en_US'' True w'"
    by blast
  from w'(3) have "loadDictionary ''en_US'' w' = w'" by (rule loadDictionary_beingLoaded)
  with w' loadingWorld_effects
  show "\<exists>w'. runSteps (\<lambda>l a d. wordList []) ''en_US''
            [DictionaryDone (Some ''NotFound'') [], AffixDone None ''SET UTF-8''] loadingWorld
            = Inr w' \<and>
         Trigger (DictionaryFailedToLoad ''en_US'') \<notin> set (effects w') \<and>
         hasDictionary ''en_US'' False w' \<and> \<not> hasDictionary ''en_US'' True w' \<and>
         ''en_US'' \<in> set (dictionariesBeingLoaded w') \<and>
         loadDictionary ''en_US'' w' = w'"
    by auto
qed

text \<open>
  C7. While a locale is loading, a further \<open>loadDictionary\<close> for it leaves the whole state
  as it is. Whatever the order in which the two reads complete with success, and wherever
  further load requests fall among them, the run triggers \<open>dictionaryLoaded\<close> for the locale
  exactly once and constructs the Typo instance exactly once, just before; the entry ends
  ready with that instance.
\<close>

theorem C7_repeated_load_deduplicated:
  assumes "loading localeName w"
    and "filter (\<lambda>s. s \<noteq> LoadAgain) steps = [AffixDone None a, DictionaryDone None b] \<or>
         filter (\<lambda>s. s \<noteq> LoadAgain) steps = [DictionaryDone None b, AffixDone None a]"
  shows "loadDictionary localeName w = w \<and>
     (\<exists>w'. runSteps Typo localeName steps w = Inr w' \<and>
           effects w' = effects w @ [NewTypo localeName, Trigger (DictionaryLoaded localeName)] \<and>
           ready localeName (Typo localeName (Some a) (Some b)) w' \<and>
           localeName \<notin> set (dictionariesBeingLoaded w'))"
proof -
  from loading_entry [OF assms(1)] obtain d where
    l: "localeName \<in> set (dictionariesBeingLoaded w)" and
    d: "map_of (dictionaries w) localeName = Some d" "affixLoaded d = Some False"
       "dictionaryLoaded d = Some False"
    by blast
  have same: "loadDictionary localeName w = w"
    using l by (rule loadDictionary_beingLoaded)
  have known: "hasDictionary localeName False w"
    using d(1) by (simp add: hasDictionary_def)
  have "\<forall>s \<in> set steps. successful s"
  proof
    fix s assume s: "s \<in> set steps"
    show "successful s"
    proof (cases "s = LoadAgain")
      case True
      then show ?thesis by (simp add: successful_def)
    next
      case False
      with s have "s \<in> set (filter (\<lambda>s. s \<noteq> LoadAgain) steps)" by simp
      moreover have "set (filter (\<lambda>s. s \<noteq> LoadAgain) steps) =
          {AffixDone None a, DictionaryDone None b}"
        using assms(2) by (elim disjE) (simp_all only: list.set, auto)
      ultimately have "s = AffixDone None a \<or> s = DictionaryDone None b" by blast
      then show ?thesis by (auto simp: successful_def)
    qed
  qed
  then have "list_all successful steps" by (simp add: list_all_iff)
  with known have skip: "runSteps Typo localeName steps w =
      runSteps Typo localeName (filter (\<lambda>s. s \<noteq> LoadAgain) steps) w"
    by (rule runSteps_skip_loads)
  from assms(2) have "\<exists>w'. runSteps Typo localeName steps w = Inr w' \<and>
           effects w' = effects w @ [NewTypo localeName, Trigger (DictionaryLoaded localeName)] \<and>
           ready localeName (Typo localeName (Some a) (Some b)) w' \<and>
           localeName \<notin> set (dictionariesBeingLoaded w')"
  proof
    assume "filter (\<lambda>s. s \<noteq> LoadAgain) steps = [AffixDone None a, DictionaryDone None b]"
    then show ?thesis using both_ok_affix_first [OF d] skip by simp
  next
    assume "filter (\<lambda>s. s \<noteq> LoadAgain) steps = [DictionaryDone None b, AffixDone None a]"
    then show ?thesis using both_ok_dictionary_first [OF d] skip by simp
  qed
  with same show ?thesis by simp
qed

theorem C7_repeated_load_deduplicated_witness:
  "loading ''en_US'' loadingWorld \<and>
   loadDictionary ''en_US'' loadingWorld = loadingWorld \<and>
   (\<exists>w'. runSteps (\<lambda>l a d. wordList [''the'']) ''en_US''
            [LoadAgain, DictionaryDone None ''1'', LoadAgain, AffixDone None ''SET UTF-8'', LoadAgain]
            loadingWorld = Inr w' \<and>
     effects w' = effects loadingWorld @ [NewTypo ''en_US'', Trigger (DictionaryLoaded ''en_US'')] \<and>
     ready ''en_US'' (wordList [''the'']) w' \<and>
     ''en_US'' \<notin> set (dictionariesBeingLoaded w'))"
proof -
  let ?steps = "[LoadAgain, DictionaryDone None ''1'', LoadAgain, AffixDone None ''SET UTF-8'', LoadAgain]"
  have s: "filter (\<lambda>s. s \<noteq> LoadAgain) ?steps = [AffixDone None ''SET UTF-8'', DictionaryDone None ''1''] \<or>
           filter (\<lambda>s. s \<noteq> LoadAgain) ?steps = [DictionaryDone None ''1'', AffixDone None ''SET UTF-8'']"
    by simp
  show ?thesis
    using loadingWorld_loading C7_repeated_load_deduplicated [OF loadingWorld_loading s, of "\<lambda>l a d. wordList [''the'']"]
    by blast
qed

section \<open>Checking a word against a profile\<close>

lemma ready_lookup:
  "ready l t w \<Longrightarrow>
   hasDictionary l True w \<and> (\<exists>d. map_of (dictionaries w) l = Some d \<and> typo d = Some t)"
  by (simp add: ready_def hasDictionary_def split: option.splits)

lemma checkProfileItems_ready:
  "ready (name item) t w \<Longrightarrow>
   checkProfileItems word (item # rest) w =
     (if typo_check t word then Inr (True, w) else checkProfileItems word rest w)"
  by (auto dest: ready_lookup)

lemma check_profile_of_two:
  assumes "pm_initialized w" and "availableProfiles w P = Some p" and "items p = [a, b]"
    and "ready (name a) ta w" and "ready (name b) tb w"
  shows "check word (Some P) w = Inr (Some (typo_check ta word \<or> typo_check tb word), w)"
  using assms
  by (simp add: check_def hasProfile_def getProfileItems_def checkProfileItems_ready
      del: checkProfileItems.simps(2))

text \<open>
  C6. For a profile whose item list is available and holds two items, both with a ready
  dictionary, \<open>check\<close> returns \<open>true\<close> exactly when at least one of the two lexicons
  accepts the word, and leaves the state as it is; the same holds with the two items in the
  other order, so the answer does not depend on the order.
\<close>

theorem C6_profile_of_two_is_or:
  assumes "pm_initialized w" and "availableProfiles w P = Some p" and "items p = [a, b]"
    and "pm_initialized w'" and "availableProfiles w' P = Some p'" and "items p' = [b, a]"
    and "dictionaries w' = dictionaries w"
    and "ready (name a) ta w" and "ready (name b) tb w"
  shows "check word (Some P) w = Inr (Some (typo_check ta word \<or> typo_check tb word), w) \<and>
         check word (Some P) w' = Inr (Some (typo_check ta word \<or> typo_check tb word), w')"
proof -
  have ra: "ready (name a) ta w'" and rb: "ready (name b) tb w'"
    using assms(7-9) by (simp_all add: ready_def)
  have "check word (Some P) w' = Inr (Some (typo_check tb word \<or> typo_check ta word), w')"
    using assms(4-6) rb ra by (rule check_profile_of_two)
  moreover have "check word (Some P) w = Inr (Some (typo_check ta word \<or> typo_check tb word), w)"
    using assms(1-3,8,9) by (rule check_profile_of_two)
  ultimately show ?thesis by (simp add: disj_commute)
qed

theorem C6_profile_of_two_is_or_witness:
  "pm_initialized profileWorld \<and>
   ready ''en_US'' (wordList [''heart'']) profileWorld \<and>
   ready ''med'' (wordList [''aorta'']) profileWorld \<and>
   \<not> typo_check (wordList [''heart'']) ''aorta'' \<and>
   check ''aorta'' (Some ''mine'') profileWorld = Inr (Some True, profileWorld) \<and>
   check ''aorta'' (Some ''mine'') swappedProfileWorld = Inr (Some True, swappedProfileWorld) \<and>
   check ''aortta'' (Some ''mine'') profileWorld = Inr (Some False, profileWorld)"
proof -
  let ?p = "\<lparr> profile = ''mine'', items = [dictionaryItem ''en_US'', dictionaryItem ''med''] \<rparr>"
  let ?p' = "\<lparr> profile = ''mine'', items = [dictionaryItem ''med'', dictionaryItem ''en_US''] \<rparr>"
  have 1: "pm_initialized profileWorld" by (simp add: profileWorld_def)
  have 2: "availableProfiles profileWorld ''mine'' = Some ?p" by (simp add: profileWorld_def)
  have 3: "items ?p = [dictionaryItem ''en_US'', dictionaryItem ''med'']" by simp
  have 4: "pm_initialized swappedProfileWorld"
    by (simp add: swappedProfileWorld_def profileWorld_def)
  have 5: "availableProfiles swappedProfileWorld ''mine'' = Some ?p'"
    by (simp add: swappedProfileWorld_def)
  have 6: "items ?p' = [dictionaryItem ''med'', dictionaryItem ''en_US'']" by simp
  have 7: "dictionaries swappedProfileWorld = dictionaries profileWorld"
    by (simp add: swappedProfileWorld_def)
  have 8: "ready (name (dictionaryItem ''en_US'')) (wordList [''heart'']) profileWorld"
    by (simp add: ready_def profileWorld_def dictionaryItem_def readyEntry_def)
  have 9: "ready (name (dictionaryItem ''med'')) (wordList [''aorta'']) profileWorld"
    by (simp add: ready_def profileWorld_def dictionaryItem_def readyEntry_def)
  show ?thesis
    using 1 8 9
      C6_profile_of_two_is_or [OF 1 2 3 4 5 6 7 8 9, of "''aorta''"]
      C6_profile_of_two_is_or [OF 1 2 3 4 5 6 7 8 9, of "''aortta''"]
    by (simp add: wordList_def dictionaryItem_def)
qed

section \<open>The answer of a check does not depend on earlier checks\<close>

text \<open>
  A check may ask dictionaries to load. That creates entries that are not initialized (or
  removes them again), which no later check of the same call reads: the answers are those
  that the checks give in the world before.
\<close>

lemma hasDictionary_readyTypo: "hasDictionary l True w = (readyTypo l w \<noteq> None)"
  by (simp add: hasDictionary_def readyTypo_def split: option.splits)

lemma sameReady_refl: "sameReady w w"
  by (simp add: sameReady_def)

lemma sameReady_sym: "sameReady w w' \<Longrightarrow> sameReady w' w"
  by (simp add: sameReady_def)

lemma sameReady_trans: "sameReady w w' \<Longrightarrow> sameReady w' w'' \<Longrightarrow> sameReady w w''"
  by (simp add: sameReady_def)

lemma loadDictionary_sameReady: "sameReady w (loadDictionary l w)"
  by (auto simp: sameReady_def readyTypo_def load_defs dm_defs Let_def update_conv' delete_conv'
      split: option.splits)

lemma sameReady_loadDictionary:
  "sameReady w1 w2 \<Longrightarrow> sameReady (loadDictionary l w1) (loadDictionary l' w2)"
  by (meson loadDictionary_sameReady sameReady_sym sameReady_trans)

lemma checkProfileItems_sameReady:
  "checkProfileItems word its w = Inr (b, w') \<Longrightarrow> sameReady w w'"
proof (induction its arbitrary: w)
  case Nil
  then show ?case by (simp add: sameReady_refl)
next
  case (Cons item rest)
  show ?case
  proof (cases "hasDictionary (name item) True w")
    case True
    with Cons show ?thesis
      by (auto simp: sameReady_refl split: option.splits if_splits)
  next
    case False
    with Cons.prems have "checkProfileItems word rest (loadDictionary (name item) w) = Inr (b, w')"
      by simp
    then have "sameReady (loadDictionary (name item) w) w'" by (rule Cons.IH)
    with loadDictionary_sameReady show ?thesis by (rule sameReady_trans)
  qed
qed

lemma sameReady_lookup:
  "sameReady w1 w2 \<Longrightarrow> hasDictionary l True w1 \<Longrightarrow>
   hasDictionary l True w2 \<and>
   (\<exists>d1 d2. map_of (dictionaries w1) l = Some d1 \<and> map_of (dictionaries w2) l = Some d2 \<and>
      typo d1 = typo d2)"
  by (auto simp: sameReady_def readyTypo_def hasDictionary_def split: option.splits if_splits
      dest!: spec [where x = l])

lemma sameReady_hasDictionary:
  "sameReady w1 w2 \<Longrightarrow> hasDictionary l True w1 = hasDictionary l True w2"
  by (simp add: sameReady_def hasDictionary_readyTypo)

lemma checkProfileItems_answer_cong:
  "sameReady w1 w2 \<Longrightarrow>
   answer (checkProfileItems word its w1) = answer (checkProfileItems word its w2)"
proof (induction its arbitrary: w1 w2)
  case Nil
  then show ?case by (simp add: answer_def)
next
  case (Cons item rest)
  show ?case
  proof (cases "hasDictionary (name item) True w1")
    case True
    from sameReady_lookup [OF Cons.prems True] obtain d1 d2 where
      h: "hasDictionary (name item) True w2" "map_of (dictionaries w1) (name item) = Some d1"
         "map_of (dictionaries w2) (name item) = Some d2" "typo d1 = typo d2"
      by blast
    show ?thesis
      using True h Cons.IH [OF Cons.prems]
      by (simp add: answer_def split: option.splits)
  next
    case False
    then have "\<not> hasDictionary (name item) True w2"
      using Cons.prems by (simp add: sameReady_hasDictionary)
    with False show ?thesis
      using Cons.IH [OF sameReady_loadDictionary [OF Cons.prems]] by simp
  qed
qed

lemma check_sameReady: "check word lo w = Inr (r, w') \<Longrightarrow> sameReady w w'"
  by (auto simp: check_def Let_def sameReady_refl split: option.splits sum.splits if_splits
      dest: checkProfileItems_sameReady)

lemma check_answer_cong:
  assumes "sameReady w1 w2"
  shows "answer (check word lo w1) = answer (check word lo w2)"
proof -
  let ?l = "case lo of None \<Rightarrow> defaultLocale w1 | Some l' \<Rightarrow> l'"
  have l: "(case lo of None \<Rightarrow> defaultLocale w2 | Some l' \<Rightarrow> l') = ?l"
    using assms by (simp add: sameReady_def split: option.splits)
  have p: "(if hasProfile ?l w2 then getProfileItems ?l w2 else None) =
           (if hasProfile ?l w1 then getProfileItems ?l w1 else None)"
    using assms by (simp add: sameReady_def hasProfile_def getProfileItems_def)
  show ?thesis
  proof (cases "if hasProfile ?l w1 then getProfileItems ?l w1 else None")
    case (Some its)
    have "answer (checkProfileItems word its w1) = answer (checkProfileItems word its w2)"
      using assms by (rule checkProfileItems_answer_cong)
    then show ?thesis
      using Some p l
      by (simp add: check_def Let_def answer_def split: sum.splits prod.splits)
  next
    case None
    show ?thesis
    proof (cases "hasDictionary ?l True w1")
      case True
      from sameReady_lookup [OF assms True] obtain d1 d2 where
        h: "hasDictionary ?l True w2" "map_of (dictionaries w1) ?l = Some d1"
           "map_of (dictionaries w2) ?l = Some d2" "typo d1 = typo d2"
        by blast
      show ?thesis
        using None p l True h by (simp add: check_def Let_def answer_def split: option.splits)
    next
      case False
      then have "\<not> hasDictionary ?l True w2"
        using assms by (simp add: sameReady_hasDictionary)
      with False show ?thesis
        using None p l by (simp add: check_def Let_def answer_def)
    qed
  qed
qed

lemma checkParts_all:
  "answer (checkParts parts w) = Inr True \<longleftrightarrow>
   (\<forall>part \<in> set parts. answer (check part None w) = Inr (Some True))"
proof (induction parts arbitrary: w)
  case Nil
  then show ?case by (simp add: answer_def)
next
  case (Cons part rest)
  show ?case
  proof (cases "check part None w")
    case (Inl e)
    then show ?thesis by (simp add: answer_def)
  next
    case (Inr rw)
    obtain r w' where rw: "rw = (r, w')" by (cases rw)
    with Inr have s: "sameReady w w'" by (simp add: check_sameReady)
    have "\<And>q. answer (check q None w') = answer (check q None w)"
      using s by (simp add: check_answer_cong [OF s])
    then show ?thesis
      using Inr rw Cons.IH [of w'] by (simp add: answer_def)
  qed
qed

section \<open>Camel case and quotes\<close>

lemma loadedWorld_fields:
  "defaultLocale (loadedWorld ''en_US'' t) = ''en_US''"
  "availableProfiles (loadedWorld ''en_US'' t) = Map.empty"
  "dictionaries (loadedWorld ''en_US'' t) =
     [(''en_US'', \<lparr> initialized = True, dictionaryLoaded = Some True, affixLoaded = Some True,
            affixData = Some ''SET UTF-8'', dictionaryData = Some ''0'', typo = Some t,
            localeOf = ''en_US'' \<rparr>)]"
  "sc_initialized (loadedWorld ''en_US'' t)"
  "spellingIgnoreUppercase (loadedWorld ''en_US'' t)"
  "alwaysIgnoreCachedList (loadedWorld ''en_US'' t) = [''alice'']"
  "ignoreOnlyWithCondition (loadedWorld ''en_US'' t) = []"
  "\<not> hasProfile ''en_US'' (loadedWorld ''en_US'' t)"
  by (simp_all add: loadedWorld_def dm_defs load_defs initialWorld_def arrayPropertyNames_def Let_def)

lemma check_loadedWorld:
  "check word None (loadedWorld ''en_US'' t) =
   Inr (Some (typo_check t word), loadedWorld ''en_US'' t)"
  by (simp add: check_def loadedWorld_fields hasDictionary_def Let_def)

lemma fooBar_parts:
  "hasCorrectSpelling ''fooBar'' w =
     (case checkParts [''foo'', ''Bar''] w of Inl e \<Rightarrow> Inl e | Inr (b, w') \<Rightarrow> Inr (Some b, w'))"
proof -
  have i: "isCamelCase ''fooBar''" by (simp add: string_defs)
  have s: "splitByUpperCase ''fooBar'' = [''foo'', ''Bar'']" by (simp add: string_defs)
  have n: "parseFloat_isNaN ''fooBar''" by (simp add: string_defs)
  have u: "toUpperCase ''fooBar'' \<noteq> Some ''fooBar''" by (simp add: string_defs)
  show ?thesis
    using i n u
    by (simp add: hasCorrectSpelling_def quoteDetection_def camelCaseOrCheck_def
        checkSpellingOfCamelCaseWord_def s
        isCommonTerm_def commonProgrammingKeywords_def startsWith_def endsWith_def
        singleQuote_def doubleQuote_def attemptIntelligentQuoteDetection_def
        automaticallyDetectCamelCaseWords_def del: checkParts.simps)
qed

lemma answer_Some:
  "answer (case r of Inl e \<Rightarrow> Inl e | Inr (b, w') \<Rightarrow> Inr (Some b, w')) = Inr (Some True)
   \<longleftrightarrow> answer r = Inr True"
  by (simp add: answer_def split: sum.splits prod.splits)

text \<open>
  C2, as amended. In every state of the dictionaries, \<open>_hasCorrectSpelling\<close> answers
  \<open>true\<close> for \<open>fooBar\<close> exactly when \<open>check\<close> answers \<open>true\<close> for \<open>foo\<close> and for
  \<open>Bar\<close>: the word is cut before its upper-case letters and the parts are checked as they
  are cut, the second with its capital.
\<close>

theorem C2_fooBar_parts_foo_and_Bar:
  "answer (hasCorrectSpelling ''fooBar'' w) = Inr (Some True) \<longleftrightarrow>
   answer (check ''foo'' None w) = Inr (Some True) \<and>
   answer (check ''Bar'' None w) = Inr (Some True)"
  by (simp only: fooBar_parts answer_Some checkParts_all) simp

theorem C2_fooBar_parts_foo_and_Bar_witness:
  "answer (check ''foo'' None (loadedWorld ''en_US'' (wordList [''foo'', ''Bar'']))) = Inr (Some True) \<and>
   answer (check ''Bar'' None (loadedWorld ''en_US'' (wordList [''foo'', ''Bar'']))) = Inr (Some True) \<and>
   answer (hasCorrectSpelling ''fooBar'' (loadedWorld ''en_US'' (wordList [''foo'', ''Bar''])))
     = Inr (Some True) \<and>
   answer (hasCorrectSpelling ''fooBar'' (loadedWorld ''en_US'' (wordList [''foo'', ''bar''])))
     \<noteq> Inr (Some True)"
proof -
  have 1: "answer (check ''foo'' None (loadedWorld ''en_US'' (wordList [''foo'', ''Bar''])))
      = Inr (Some True)"
    by (simp add: check_loadedWorld answer_def wordList_def)
  have 2: "answer (check ''Bar'' None (loadedWorld ''en_US'' (wordList [''foo'', ''Bar''])))
      = Inr (Some True)"
    by (simp add: check_loadedWorld answer_def wordList_def)
  have 3: "answer (check ''Bar'' None (loadedWorld ''en_US'' (wordList [''foo'', ''bar''])))
      \<noteq> Inr (Some True)"
    by (simp add: check_loadedWorld answer_def wordList_def)
  show ?thesis
    using 1 2 3
      C2_fooBar_parts_foo_and_Bar [of "loadedWorld ''en_US'' (wordList [''foo'', ''Bar''])"]
      C2_fooBar_parts_foo_and_Bar [of "loadedWorld ''en_US'' (wordList [''foo'', ''bar''])"]
    by blast
qed

text \<open>
  C2, as stated, fails: with a lexicon that accepts \<open>foo\<close> and \<open>Bar\<close> but not \<open>bar\<close>,
  \<open>fooBar\<close> is spelled correctly although \<open>check\<close> answers \<open>false\<close> for \<open>bar\<close>.
\<close>

theorem C2_fooBar_counterexample:
  "answer (hasCorrectSpelling ''fooBar'' (loadedWorld ''en_US'' (wordList [''foo'', ''Bar''])))
     = Inr (Some True) \<and>
   answer (check ''foo'' None (loadedWorld ''en_US'' (wordList [''foo'', ''Bar''])))
     = Inr (Some True) \<and>
   answer (check ''bar'' None (loadedWorld ''en_US'' (wordList [''foo'', ''Bar''])))
     = Inr (Some False)"
  by (simp add: fooBar_parts check_loadedWorld answer_def wordList_def)

lemma dropWhile_absent: "q \<notin> set xs \<Longrightarrow> dropWhile (\<lambda>c. c = q) (xs @ ys) = (if xs = [] then dropWhile (\<lambda>c. c = q) ys else xs @ ys)"
  by (cases xs) auto

lemma trimChar_quoted: "q \<notin> set inner \<Longrightarrow> trimChar (q # inner @ [q]) q = inner"
proof (cases "inner = []")
  case True
  then show ?thesis by (simp add: trimChar_def)
next
  case False
  assume q: "q \<notin> set inner"
  have 1: "dropWhile (\<lambda>c. c = q) (q # inner @ [q]) = inner @ [q]"
    using q False by (simp add: dropWhile_absent)
  have "q \<notin> set (rev inner)" using q by simp
  then have 2: "dropWhile (\<lambda>c. c = q) (q # rev inner @ []) = rev inner"
    using False by (simp add: dropWhile_absent del: append_Nil2)
  show ?thesis using 1 2 by (simp add: trimChar_def)
qed

lemma quoted_between:
  assumes "singleQuote \<notin> set inner"
    and "answer (check inner None w) = Inr (Some True)"
    and "isCamelCase inner \<longrightarrow> answer (checkSpellingOfCamelCaseWord inner w) = Inr True"
  shows "\<exists>w'. checkSpellingBetweenCharacter (singleQuote # inner @ [singleQuote]) singleQuote w
           = Inr (I (- 1), w')"
proof (cases "isCamelCase inner")
  case True
  with assms(3) obtain w' where "checkSpellingOfCamelCaseWord inner w = Inr (True, w')"
    by (auto simp: answer_def split: sum.splits prod.splits)
  with True show ?thesis
    using trimChar_quoted [OF assms(1)]
    by (simp add: checkSpellingBetweenCharacter_def startsWith_def endsWith_def)
next
  case False
  from assms(2) obtain w' where "check inner None w = Inr (Some True, w')"
    by (auto simp: answer_def split: sum.splits prod.splits)
  with False show ?thesis
    using trimChar_quoted [OF assms(1)]
    by (simp add: checkSpellingBetweenCharacter_def startsWith_def endsWith_def)
qed

text \<open>
  C5, as amended. Let \<open>inner\<close> hold no quote character and let \<open>check\<close> answer \<open>true\<close>
  for it. If \<open>inner\<close> is not of camel-case shape, or if every part of it also passes the
  check of the camel-case words, then \<open>_hasCorrectSpelling\<close> answers \<open>true\<close> for
  \<open>inner\<close> between single quotes.
\<close>

theorem C5_single_quoted_correct:
  assumes "singleQuote \<notin> set inner" and "doubleQuote \<notin> set inner"
    and "answer (check inner None w) = Inr (Some True)"
    and "isCamelCase inner \<longrightarrow> answer (checkSpellingOfCamelCaseWord inner w) = Inr True"
  shows "answer (hasCorrectSpelling (singleQuote # inner @ [singleQuote]) w) = Inr (Some True)"
proof -
  let ?word = "singleQuote # inner @ [singleQuote]"
  from quoted_between [OF assms(1,3,4)] obtain w' where
    b: "checkSpellingBetweenCharacter ?word singleQuote w = Inr (I (- 1), w')"
    by blast
  have d: "\<not> startsWith ?word [doubleQuote]" "\<not> endsWith ?word [doubleQuote]"
    by (simp_all add: startsWith_def endsWith_def singleQuote_def doubleQuote_def)
  have s: "startsWith ?word [singleQuote]"
    by (simp add: startsWith_def)
  have "answer (quoteDetection ?word w) = Inr (Some True)"
    using b d s by (simp add: quoteDetection_def attemptIntelligentQuoteDetection_def answer_def)
  then show ?thesis
    using s by (simp add: hasCorrectSpelling_def answer_def)
qed

theorem C5_single_quoted_correct_witness:
  "singleQuote \<notin> set ''fooBar'' \<and> doubleQuote \<notin> set ''fooBar'' \<and>
   answer (check ''fooBar'' None (loadedWorld ''en_US'' (wordList [''fooBar'', ''foo'', ''Bar''])))
     = Inr (Some True) \<and>
   isCamelCase ''fooBar'' \<and>
   answer (checkSpellingOfCamelCaseWord ''fooBar''
             (loadedWorld ''en_US'' (wordList [''fooBar'', ''foo'', ''Bar''])))
     = Inr True \<and>
   answer (hasCorrectSpelling (singleQuote # ''fooBar'' @ [singleQuote])
             (loadedWorld ''en_US'' (wordList [''fooBar'', ''foo'', ''Bar''])))
     = Inr (Some True)"
proof -
  let ?W = "loadedWorld ''en_US'' (wordList [''fooBar'', ''foo'', ''Bar''])"
  have 1: "singleQuote \<notin> set ''fooBar''" by (simp add: singleQuote_def)
  have 2: "doubleQuote \<notin> set ''fooBar''" by (simp add: doubleQuote_def)
  have 3: "answer (check ''fooBar'' None ?W) = Inr (Some True)"
    by (simp add: check_loadedWorld answer_def wordList_def)
  have i: "isCamelCase ''fooBar''" by (simp add: string_defs)
  have s: "splitByUpperCase ''fooBar'' = [''foo'', ''Bar'']" by (simp add: string_defs)
  have 4: "answer (checkSpellingOfCamelCaseWord ''fooBar'' ?W) = Inr True"
    by (simp add: checkSpellingOfCamelCaseWord_def s check_loadedWorld answer_def wordList_def)
  then have 5: "isCamelCase ''fooBar'' \<longrightarrow>
      answer (checkSpellingOfCamelCaseWord ''fooBar'' ?W) = Inr True"
    by simp
  show ?thesis
    using 1 2 3 i 4 C5_single_quoted_correct [OF 1 2 3 5] by simp
qed

lemma quoted_fooBar:
  "hasCorrectSpelling (singleQuote # ''fooBar'' @ [singleQuote]) w =
     (case checkParts [''foo'', ''Bar''] w of
        Inl e \<Rightarrow> Inl e
      | Inr (b, w') \<Rightarrow> Inr (Some b, w'))"
proof -
  define word where "word = singleQuote # ''fooBar'' @ [singleQuote]"
  have t: "trimChar word singleQuote = ''fooBar''"
    unfolding word_def by (rule trimChar_quoted) (simp add: singleQuote_def)
  have i: "isCamelCase ''fooBar''" by (simp add: string_defs)
  have s: "splitByUpperCase ''fooBar'' = [''foo'', ''Bar'']" by (simp add: string_defs)
  have n: "parseFloat_isNaN word" by (simp add: word_def string_defs)
  have u: "toUpperCase word \<noteq> Some word" by (simp add: word_def string_defs)
  have c: "\<not> isCommonTerm word"
    by (simp add: word_def isCommonTerm_def commonProgrammingKeywords_def singleQuote_def)
  have q: "startsWith word [singleQuote]" "endsWith word [singleQuote]"
    "\<not> startsWith word [doubleQuote]" "\<not> endsWith word [doubleQuote]"
    "\<not> endsWith word [singleQuote, CHR ''s'']"
    by (simp_all add: word_def startsWith_def endsWith_def singleQuote_def doubleQuote_def)
  have "hasCorrectSpelling word w =
     (case checkParts [''foo'', ''Bar''] w of
        Inl e \<Rightarrow> Inl e
      | Inr (b, w') \<Rightarrow> Inr (Some b, w'))"
  proof (cases "checkParts [''foo'', ''Bar''] w")
    case (Inl e)
    then show ?thesis
      using c n u q i
      by (simp add: hasCorrectSpelling_def quoteDetection_def attemptIntelligentQuoteDetection_def
          checkSpellingBetweenCharacter_def t checkSpellingOfCamelCaseWord_def s
          del: checkParts.simps)
  next
    case (Inr bw)
    obtain b w' where "bw = (b, w')" by (cases bw)
    with Inr show ?thesis
      using c n u q i
      by (cases b)
         (simp_all add: hasCorrectSpelling_def quoteDetection_def
           attemptIntelligentQuoteDetection_def checkSpellingBetweenCharacter_def t
           checkSpellingOfCamelCaseWord_def s del: checkParts.simps)
  qed
  then show ?thesis by (simp only: word_def)
qed

text \<open>
  C5, as stated, fails: with a lexicon that accepts \<open>fooBar\<close> but not its part \<open>foo\<close>,
  \<open>check\<close> answers \<open>true\<close> for \<open>fooBar\<close>, and yet \<open>fooBar\<close> between single quotes
  is spelled incorrectly, because the quoted word is of camel-case shape and is checked part
  by part.
\<close>

theorem C5_single_quoted_counterexample:
  "singleQuote \<notin> set ''fooBar'' \<and> doubleQuote \<notin> set ''fooBar'' \<and>
   answer (check ''fooBar'' None (loadedWorld ''en_US'' (wordList [''fooBar''])))
     = Inr (Some True) \<and>
   answer (hasCorrectSpelling (singleQuote # ''fooBar'' @ [singleQuote])
             (loadedWorld ''en_US'' (wordList [''fooBar''])))
     = Inr (Some False)"
proof -
  have "singleQuote \<notin> set ''fooBar''" "doubleQuote \<notin> set ''fooBar''"
    by (simp_all add: singleQuote_def doubleQuote_def)
  then show ?thesis
    by (simp add: quoted_fooBar [simplified] check_loadedWorld answer_def wordList_def)
qed

section \<open>The gate of the overlay\<close>

lemma check_not_ready:
  "\<not> hasProfile (defaultLocale w) w \<Longrightarrow> \<not> hasDictionary (defaultLocale w) True w \<Longrightarrow>
   check word None w = Inr (None, w)"
  by (simp add: check_def)

text \<open>
  A request to load changes neither which dictionaries are ready nor the ignore list, and a
  profile of two dictionaries of which none is ready makes \<open>check\<close> answer \<open>false\<close>,
  after it has asked both to load.
\<close>

lemma loadDictionary_hasDictionary:
  "hasDictionary l True (loadDictionary l' w) = hasDictionary l True w"
  using sameReady_hasDictionary [OF loadDictionary_sameReady, of l w l'] by simp

lemma loadDictionary_alwaysIgnoreCachedList:
  "alwaysIgnoreCachedList (loadDictionary l w) = alwaysIgnoreCachedList w"
  by (simp add: load_defs dm_defs Let_def)

lemma check_profile_none_ready:
  assumes "pm_initialized w" and "availableProfiles w (defaultLocale w) = Some p"
    and "items p = [a, b]"
    and "\<not> hasDictionary (name a) True w" and "\<not> hasDictionary (name b) True w"
  shows "check word None w =
         Inr (Some False, loadDictionary (name b) (loadDictionary (name a) w))"
  using assms
  by (simp add: check_def hasProfile_def getProfileItems_def Let_def
      loadDictionary_hasDictionary)

text \<open>The word \<open>helo\<close> passes every heuristic and is handed to \<open>check\<close>.\<close>

lemma helo_checked: "hasCorrectSpelling ''helo'' w = check ''helo'' None w"
proof -
  have i: "\<not> isCamelCase ''helo''" by (simp add: string_defs)
  have n: "parseFloat_isNaN ''helo''" by (simp add: string_defs)
  have u: "toUpperCase ''helo'' \<noteq> Some ''helo''" by (simp add: string_defs)
  show ?thesis
    using i n u
    by (simp add: hasCorrectSpelling_def quoteDetection_def camelCaseOrCheck_def
        isCommonTerm_def commonProgrammingKeywords_def startsWith_def endsWith_def
        singleQuote_def doubleQuote_def)
qed

lemma helo_scanned:
  "takeWhile (\<lambda>c. \<not> isWordSeparator (Some c)) ''helo wrld'' = ''helo''"
  "dropWhile (\<lambda>c. \<not> isWordSeparator (Some c)) ''helo wrld'' = '' wrld''"
  "\<not> isWordSeparator (peek ''helo wrld'')"
  by (simp_all add: sep_defs)

lemma token_helo:
  assumes "sc_initialized w" and "check ''helo'' None w = Inr (r, w')" and "r \<noteq> Some True"
    and "alwaysIgnoreCachedList w' = [''alice'']"
  shows "returned (token w initialScanner ''helo wrld'') = Inr (Some errorStyle, w')"
    and "streamAfter (token w initialScanner ''helo wrld'') = '' wrld''"
  using assms
  by (simp_all add: token_def Let_def helo_scanned helo_checked shouldIgnore_def
      initialScanner_def del: takeWhile.simps dropWhile.simps)

text \<open>
  A word for which \<open>_hasCorrectSpelling\<close> answers \<open>true\<close> gets no style from
  \<open>token\<close>, whatever the ignore rules.
\<close>

lemma token_correct_word:
  assumes "sc_initialized w" and "\<not> isWordSeparator (peek stream)"
    and "hasCorrectSpelling (takeWhile (\<lambda>c. \<not> isWordSeparator (Some c)) stream) w
         = Inr (Some True, w')"
  shows "returned (token w sc stream) = Inr (None, w')"
  using assms by (simp add: token_def Let_def)

text \<open>
  C4, as amended. While the gate of the classifier is closed, that is, while the flag
  \<open>_initialized\<close> of the spell checker is false, every call of \<open>token\<close> consumes the
  rest of the line, hands no word to the classifier, returns no style and leaves the world
  as it is, whatever dictionaries are loaded or loading.
\<close>

theorem C4_no_verdict_while_not_initialized:
  "\<not> sc_initialized w \<Longrightarrow>
   streamAfter (token w sc stream) = [] \<and>
   delivered (token w sc stream) = None \<and>
   returned (token w sc stream) = Inr (None, w)"
  by (simp add: token_def Let_def)

theorem C4_no_verdict_while_not_initialized_witness:
  "\<not> sc_initialized loadingWorld \<and>
   loading ''en_US'' loadingWorld \<and>
   streamAfter (token loadingWorld initialScanner ''helo wrld'') = [] \<and>
   delivered (token loadingWorld initialScanner ''helo wrld'') = None \<and>
   returned (token loadingWorld initialScanner ''helo wrld'') = Inr (None, loadingWorld)"
proof -
  have n: "\<not> sc_initialized loadingWorld"
    by (simp add: loadingWorld_def load_defs initialWorld_def arrayPropertyNames_def Let_def)
  show ?thesis
    using n loadingWorld_loading
      C4_no_verdict_while_not_initialized [OF n, of initialScanner "''helo wrld''"]
    by blast
qed

lemma profileSelectedWorld_fields:
  "defaultLocale profileSelectedWorld = ''mine''"
  "pm_initialized profileSelectedWorld"
  "availableProfiles profileSelectedWorld ''mine'' =
     Some \<lparr> profile = ''mine'', items = [dictionaryItem ''en_US'', dictionaryItem ''med''] \<rparr>"
  "sc_initialized profileSelectedWorld"
  "alwaysIgnoreCachedList profileSelectedWorld = [''alice'']"
  "\<not> hasDictionary ''en_US'' True profileSelectedWorld"
  "\<not> hasDictionary ''med'' True profileSelectedWorld"
  by (simp_all add: profileSelectedWorld_def initializeProfiles_def loadedWorld_def dm_defs
      load_defs initialWorld_def arrayPropertyNames_def Let_def)

text \<open>
  C4, as stated, fails. The user has selected the profile \<open>mine\<close>, of which no dictionary
  is ready; the gate is open, because \<open>fr_FR\<close> has been loaded before. For a profile
  without a ready dictionary \<open>check\<close> answers \<open>false\<close> on purpose (the word is assumed
  to be spelled incorrectly), and \<open>token\<close> returns the error style for \<open>helo\<close>.
\<close>

theorem C4_profile_counterexample:
  "defaultLocale profileSelectedWorld = ''mine'' \<and>
   getProfileItems ''mine'' profileSelectedWorld =
     Some [dictionaryItem ''en_US'', dictionaryItem ''med''] \<and>
   \<not> hasDictionary ''en_US'' True profileSelectedWorld \<and>
   \<not> hasDictionary ''med'' True profileSelectedWorld \<and>
   sc_initialized profileSelectedWorld \<and>
   answer (check ''helo'' None profileSelectedWorld) = Inr (Some False) \<and>
   answer (returned (token profileSelectedWorld initialScanner ''helo wrld''))
     = Inr (Some errorStyle) \<and>
   streamAfter (token profileSelectedWorld initialScanner ''helo wrld'') = '' wrld''"
proof -
  let ?p = "\<lparr> profile = ''mine'', items = [dictionaryItem ''en_US'', dictionaryItem ''med''] \<rparr>"
  let ?w' = "loadDictionary ''med'' (loadDictionary ''en_US'' profileSelectedWorld)"
  have p: "availableProfiles profileSelectedWorld (defaultLocale profileSelectedWorld) = Some ?p"
    by (simp add: profileSelectedWorld_fields)
  have c: "check ''helo'' None profileSelectedWorld = Inr (Some False, ?w')"
    using check_profile_none_ready [OF profileSelectedWorld_fields(2) p, of
        "dictionaryItem ''en_US''" "dictionaryItem ''med''" "''helo''"]
    by (simp add: dictionaryItem_def profileSelectedWorld_fields)
  have a: "alwaysIgnoreCachedList ?w' = [''alice'']"
    by (simp add: loadDictionary_alwaysIgnoreCachedList profileSelectedWorld_fields)
  have g: "getProfileItems ''mine'' profileSelectedWorld =
      Some [dictionaryItem ''en_US'', dictionaryItem ''med'']"
    by (simp add: getProfileItems_def hasProfile_def profileSelectedWorld_fields)
  show ?thesis
    using g c token_helo [OF profileSelectedWorld_fields(4) c _ a]
    by (simp add: profileSelectedWorld_fields answer_def)
qed

text \<open>
  Left out of the amended claim: the gate is open and the active locale is a plain locale
  without a ready lexicon. There \<open>check\<close> answers \<open>null\<close>, which \<open>token\<close> takes for
  a misspelling.
\<close>

lemma switchedWorld_fields:
  "defaultLocale switchedWorld = ''en_US''"
  "sc_initialized switchedWorld"
  "alwaysIgnoreCachedList switchedWorld = [''alice'']"
  "\<not> hasDictionary ''en_US'' True switchedWorld"
  "\<not> hasProfile ''en_US'' switchedWorld"
  by (simp_all add: switchedWorld_def loadedWorld_def dm_defs load_defs initialWorld_def
      arrayPropertyNames_def Let_def)

lemma null_answer_gets_error_style:
  "returned (token switchedWorld initialScanner ''helo wrld'')
     = Inr (Some errorStyle, switchedWorld)"
proof -
  have c: "check ''helo'' None switchedWorld = Inr (None, switchedWorld)"
    by (rule check_not_ready) (simp_all add: switchedWorld_fields)
  show ?thesis
    using token_helo(1) [OF switchedWorld_fields(2) c _ switchedWorld_fields(3)] by simp
qed

section \<open>The scanner state\<close>










end
